theory Spec2Isabelle
  imports Main "HOL-Library.Sublist"
begin

section \<open>Python values, exceptions and the process boundary\<close>

text \<open>
  The installer is a sequence of external commands (\<^verbatim>\<open>subprocess.run\<close>,
  \<^verbatim>\<open>subprocess.Popen\<close>) interleaved with prompts and prints. The model threads a
  \<open>world\<close> through every function: the commands issued so far, each with the text piped
  to its standard input, and the lines printed so far. What a command returns is decided by
  an environment \<open>proc\<close>, a function of the history and of the call, so that every theorem
  below holds for every behaviour of the external tools.

  An exception is a value: \<open>Exception m (Some e)\<close> is Python's
  \<^verbatim>\<open>Exception(f"{m}{e}")\<close>, and \<open>Exception m None\<close> is \<^verbatim>\<open>Exception(m)\<close>.
  \<^verbatim>\<open>except Exception\<close> catches every value but \<open>KeyboardInterrupt\<close>.
\<close>

datatype exn =
    KeyboardInterrupt
  | CalledProcessError "string list" int
  | KeyError string
  | IndexError
  | TypeError
  | OSError
  | Exception string "exn option"

record completed =
  returncode :: int
  stderr :: string

type_synonym call = "string list \<times> string option"

type_synonym proc = "call list \<Rightarrow> call \<Rightarrow> completed"

record world =
  calls :: "call list"
  out :: "(string \<times> exn option) list"

definition nl :: string where
  "nl = [CHR 0x0A]"

definition sq :: string where
  "sq = [CHR 0x27]"

definition print :: "string \<Rightarrow> world \<Rightarrow> world" where
  "print s w = w\<lparr>out := out w @ [(s, None)]\<rparr>"

definition print_exn :: "string \<Rightarrow> exn \<Rightarrow> world \<Rightarrow> world" where
  "print_exn s e w = w\<lparr>out := out w @ [(s, Some e)]\<rparr>"

text \<open>\<^verbatim>\<open>subprocess.run(cmd, check=...)\<close>: the call is recorded, and a non-zero return code
  raises \<^verbatim>\<open>CalledProcessError\<close> only under \<^verbatim>\<open>check=True\<close>.\<close>

definition subprocess_run :: "proc \<Rightarrow> bool \<Rightarrow> string list \<Rightarrow> world \<Rightarrow> (exn + completed) \<times> world" where
  "subprocess_run env check cmd w =
     (let r = env (calls w) (cmd, None);
          w' = w\<lparr>calls := calls w @ [(cmd, None)]\<rparr>
      in if check \<and> returncode r \<noteq> 0
         then (Inl (CalledProcessError cmd (returncode r)), w')
         else (Inr r, w'))"

text \<open>\<^verbatim>\<open>Popen(cmd, stdin=PIPE, ...).communicate(input=inp)\<close>: never raises on a return code.\<close>

definition popen_communicate :: "proc \<Rightarrow> string list \<Rightarrow> string \<Rightarrow> world \<Rightarrow> completed \<times> world" where
  "popen_communicate env cmd inp w =
     (env (calls w) (cmd, Some inp), w\<lparr>calls := calls w @ [(cmd, Some inp)]\<rparr>)"

text \<open>Sequencing: the second step runs only when the first returned.\<close>

definition then_do ::
  "(exn + 'a) \<times> 's \<Rightarrow> ('a \<Rightarrow> 's \<Rightarrow> (exn + 'b) \<times> 's) \<Rightarrow> (exn + 'b) \<times> 's" where
  "then_do r f = (case r of (Inl e, w) \<Rightarrow> (Inl e, w) | (Inr x, w) \<Rightarrow> f x w)"

definition startswith :: "string \<Rightarrow> string \<Rightarrow> bool" where
  "startswith s p = (take (length p) s = p)"

text \<open>\<^verbatim>\<open>str(n)\<close> of a Python integer: decimal digits, a minus sign when negative.\<close>

definition digit_char :: "nat \<Rightarrow> char" where
  "digit_char d = ''0123456789'' ! d"

fun str_nat :: "nat \<Rightarrow> string" where
  "str_nat n = (if n < 10 then [digit_char n] else str_nat (n div 10) @ [digit_char (n mod 10)])"

declare str_nat.simps [simp del]

definition str_int :: "int \<Rightarrow> string" where
  "str_int i = (if i < 0 then CHR ''-'' # str_nat (nat (- i)) else str_nat (nat i))"

text \<open>\<^verbatim>\<open>list.index\<close>: the position of the first occurrence, \<open>None\<close> where Python raises
  \<^verbatim>\<open>ValueError\<close>.\<close>

fun list_index :: "'a list \<Rightarrow> 'a \<Rightarrow> nat option" where
  "list_index [] x = None"
| "list_index (y # ys) x =
     (if y = x then Some 0 else map_option Suc (list_index ys x))"

text \<open>The number a command reads from a decimal operand such as the size after \<^verbatim>\<open>-V\<close>:
  the base-10 value of a non-empty string of digits. It is the reading against which
  \<open>str_int\<close> is checked below, not part of the installer.\<close>

definition digit_value :: "char \<Rightarrow> nat option" where
  "digit_value c = list_index ''0123456789'' c"

fun decimal_value_from :: "nat \<Rightarrow> string \<Rightarrow> nat option" where
  "decimal_value_from acc [] = Some acc"
| "decimal_value_from acc (c # cs) =
     (case digit_value c of None \<Rightarrow> None | Some d \<Rightarrow> decimal_value_from (10 * acc + d) cs)"

definition decimal_value :: "string \<Rightarrow> nat option" where
  "decimal_value s = (if s = [] then None else decimal_value_from 0 s)"

section \<open>ZFSManager (utils/zfs\_manager.py)\<close>

record ZFSManager =
  pool_name :: string
  pool_type :: string
  disks :: "string list"
  compression :: string
  deduplication :: bool
  encryption :: bool
  encryption_passphrase :: string
  ashift :: int
  autotrim :: bool
  swap_size :: int
  datasets :: "string \<rightharpoonup> string option"

definition ZFSManager_init :: ZFSManager where
  "ZFSManager_init =
     \<lparr>pool_name = ''rpool'', pool_type = ''single'', disks = [], compression = ''lz4'',
      deduplication = False, encryption = False, encryption_passphrase = '''',
      ashift = 12, autotrim = True, swap_size = 0, datasets = Map.empty\<rparr>"

text \<open>The argument of \<open>create_pool\<close>: \<open>main\<close> passes \<^verbatim>\<open>disk_manager.partitions['zfs']\<close>,
  which is \<^verbatim>\<open>None\<close> or a string; the function also takes a list.\<close>

datatype py_partitions = PyNone | PyStr string | PyList "string list"

text \<open>The command of \<open>create_pool\<close> up to and including the pool name.\<close>

definition create_pool_options :: "ZFSManager \<Rightarrow> string list" where
  "create_pool_options z =
     [''zpool'', ''create'', ''-f'']
     @ [''-o'', ''ashift='' @ str_int (ashift z)]
     @ (if autotrim z then [''-o'', ''autotrim=on''] else [])
     @ [''-O'', ''compression='' @ compression z,
        ''-O'', ''normalization=formD'',
        ''-O'', ''acltype=posixacl'',
        ''-O'', ''xattr=sa'',
        ''-O'', ''relatime=on'',
        ''-O'', ''canmount=off'']
     @ (if deduplication z then [''-O'', ''dedup=on''] else [])
     @ (if encryption z
        then [''-O'', ''encryption=aes-256-gcm'',
              ''-O'', ''keylocation=prompt'',
              ''-O'', ''keyformat=passphrase'']
        else [])
     @ [''-O'', ''mountpoint=none'']
     @ [pool_name z]"

text \<open>"Add pool type and disks": \<^verbatim>\<open>zfs_partitions[0]\<close> raises \<^verbatim>\<open>IndexError\<close> on an empty
  list; a pool type that is none of the three adds nothing.\<close>

definition create_pool_vdevs :: "ZFSManager \<Rightarrow> string list \<Rightarrow> exn + string list" where
  "create_pool_vdevs z zfs_partitions =
     (if pool_type z = ''single'' \<or> length zfs_partitions = 1
      then (case zfs_partitions of [] \<Rightarrow> Inl IndexError | p # _ \<Rightarrow> Inr [p])
      else if pool_type z = ''mirror'' then Inr (''mirror'' # zfs_partitions)
      else if startswith (pool_type z) ''raidz'' then Inr (pool_type z # zfs_partitions)
      else Inr [])"

definition create_pool_cmd :: "ZFSManager \<Rightarrow> string list \<Rightarrow> exn + string list" where
  "create_pool_cmd z zfs_partitions =
     (case create_pool_vdevs z zfs_partitions of
        Inl e \<Rightarrow> Inl e
      | Inr vdevs \<Rightarrow> Inr (create_pool_options z @ vdevs))"

text \<open>"Convert single partition to list if needed". \<^verbatim>\<open>None\<close> is neither: \<^verbatim>\<open>None[0]\<close> and
  \<^verbatim>\<open>len(None)\<close> both raise \<^verbatim>\<open>TypeError\<close>.\<close>

definition as_partition_list :: "py_partitions \<Rightarrow> exn + string list" where
  "as_partition_list arg =
     (case arg of PyNone \<Rightarrow> Inl TypeError | PyStr s \<Rightarrow> Inr [s] | PyList ps \<Rightarrow> Inr ps)"

definition create_pool :: "proc \<Rightarrow> ZFSManager \<Rightarrow> py_partitions \<Rightarrow> world \<Rightarrow> (exn + bool) \<times> world" where
  "create_pool env z arg w =
     (let w0 = print (nl @ ''Creating ZFS pool '' @ sq @ pool_name z @ sq @ ''...'') w
      in case as_partition_list arg of
           Inl e \<Rightarrow> (Inl e, w0)
         | Inr zfs_partitions \<Rightarrow>
             (case create_pool_cmd z zfs_partitions of
                Inl e \<Rightarrow> (Inl e, w0)
              | Inr cmd \<Rightarrow>
                  if encryption z
                  then (let (r, w1) = popen_communicate env cmd (encryption_passphrase z @ nl) w0
                        in if returncode r \<noteq> 0
                           then (Inl (Exception (''Failed to create encrypted ZFS pool: '' @ stderr r) None), w1)
                           else (Inr True,
                                 print (''ZFS pool '' @ sq @ pool_name z @ sq @ '' created successfully.'') w1))
                  else (case subprocess_run env True cmd w0 of
                          (Inl e, w1) \<Rightarrow> (Inl (Exception ''Error creating ZFS pool: '' (Some e)), w1)
                        | (Inr _, w1) \<Rightarrow>
                            (Inr True,
                             print (''ZFS pool '' @ sq @ pool_name z @ sq @ '' created successfully.'') w1))))"

text \<open>\<open>_create_dataset(name, *properties)\<close>.\<close>

definition create_dataset :: "proc \<Rightarrow> string \<Rightarrow> string list \<Rightarrow> world \<Rightarrow> (exn + unit) \<times> world" where
  "create_dataset env name properties w =
     (let cmd = [''zfs'', ''create'', ''-p'']
                @ concat (map (\<lambda>prop. [''-o'', prop]) properties)
                @ [name]
      in case subprocess_run env True cmd w of
           (Inl e, w1) \<Rightarrow> (Inl (Exception (''Error creating dataset '' @ name @ '': '') (Some e)), w1)
         | (Inr _, w1) \<Rightarrow> (Inr (), w1))"

text \<open>\<open>_create_swap_zvol\<close>: the command that creates the volume, then \<^verbatim>\<open>mkswap\<close>.\<close>

definition create_swap_zvol_cmd :: "ZFSManager \<Rightarrow> string list" where
  "create_swap_zvol_cmd z =
     (let swap_size_bytes = swap_size z * 1024 * 1024 * 1024
      in [''zfs'', ''create'',
          ''-V'', str_int swap_size_bytes,
          ''-b'', ''4K'',
          ''-o'', ''compression=zle'',
          ''-o'', ''logbias=throughput'',
          ''-o'', ''sync=always'',
          ''-o'', ''primarycache=metadata'',
          ''-o'', ''com.sun:auto-snapshot=false'',
          pool_name z @ ''/swap''])"

definition create_swap_zvol :: "proc \<Rightarrow> ZFSManager \<Rightarrow> world \<Rightarrow> (exn + string) \<times> world" where
  "create_swap_zvol env z w =
     (case subprocess_run env True (create_swap_zvol_cmd z) w of
        (Inl e, w1) \<Rightarrow> (Inl (Exception ''Error creating swap volume: '' (Some e)), w1)
      | (Inr _, w1) \<Rightarrow>
          (let swap_device = ''/dev/zvol/'' @ pool_name z @ ''/swap''
           in case subprocess_run env True [''mkswap'', ''-f'', swap_device] w1 of
                (Inl e, w2) \<Rightarrow> (Inl (Exception ''Error creating swap volume: '' (Some e)), w2)
              | (Inr _, w2) \<Rightarrow>
                  (Inr swap_device,
                   print (''Created and formatted swap volume: '' @ swap_device) w2)))"

text \<open>\<open>create_datasets\<close>, first the commands it runs, one after the other, each under
  \<^verbatim>\<open>check=True\<close>: the six datasets, the swap volume when requested, then
  \<^verbatim>\<open>zpool set bootfs\<close>. That last call is outside every \<^verbatim>\<open>try\<close>, so its
  \<^verbatim>\<open>CalledProcessError\<close> propagates as it is.\<close>

definition create_datasets_steps :: "proc \<Rightarrow> ZFSManager \<Rightarrow> world \<Rightarrow> (exn + completed) \<times> world" where
  "create_datasets_steps env z w =
     (let root_ds_name = pool_name z @ ''/ROOT/arch''
      in then_do (create_dataset env (pool_name z @ ''/ROOT'')
                    [''canmount=off'', ''mountpoint=none''] w) (\<lambda>_ w.
         then_do (create_dataset env root_ds_name
                    [''canmount=noauto'', ''mountpoint=/'', ''com.sun:auto-snapshot=true''] w) (\<lambda>_ w.
         then_do (create_dataset env (pool_name z @ ''/home'')
                    [''mountpoint=/home'', ''com.sun:auto-snapshot=true''] w) (\<lambda>_ w.
         then_do (create_dataset env (pool_name z @ ''/var'')
                    [''mountpoint=/var'', ''com.sun:auto-snapshot=false''] w) (\<lambda>_ w.
         then_do (create_dataset env (pool_name z @ ''/var/log'') [''mountpoint=/var/log''] w) (\<lambda>_ w.
         then_do (create_dataset env (pool_name z @ ''/var/cache'') [''mountpoint=/var/cache''] w) (\<lambda>_ w.
         then_do (if swap_size z > 0
                  then (case create_swap_zvol env z w of
                          (Inl e, w') \<Rightarrow> (Inl e, w')
                        | (Inr _, w') \<Rightarrow> (Inr (), w'))
                  else (Inr (), w)) (\<lambda>_ w.
         subprocess_run env True [''zpool'', ''set'', ''bootfs='' @ root_ds_name, pool_name z] w))))))))"

text \<open>\<open>create_datasets\<close>: \<^verbatim>\<open>self.datasets\<close> is assigned only after the last command
  returned.\<close>

definition create_datasets ::
  "proc \<Rightarrow> ZFSManager \<Rightarrow> world \<Rightarrow> (exn + (string \<rightharpoonup> string option)) \<times> ZFSManager \<times> world" where
  "create_datasets env z w =
     (case create_datasets_steps env z (print (nl @ ''Creating ZFS datasets...'') w) of
        (Inl e, w') \<Rightarrow> (Inl e, z, w')
      | (Inr _, w') \<Rightarrow>
          (let ds = [''root'' \<mapsto> Some (pool_name z @ ''/ROOT/arch''),
                     ''home'' \<mapsto> Some (pool_name z @ ''/home''),
                     ''var'' \<mapsto> Some (pool_name z @ ''/var''),
                     ''swap'' \<mapsto> (if swap_size z > 0 then Some (pool_name z @ ''/swap'') else None)]
           in (Inr ds, z\<lparr>datasets := ds\<rparr>, print ''ZFS datasets created successfully.'' w')))"

definition export_pool :: "proc \<Rightarrow> ZFSManager \<Rightarrow> world \<Rightarrow> bool \<times> world" where
  "export_pool env z w =
     (case subprocess_run env True [''zpool'', ''export'', pool_name z] w of
        (Inl e, w1) \<Rightarrow> (False, print_exn ''Warning: Failed to export pool: '' e w1)
      | (Inr _, w1) \<Rightarrow>
          (True, print (''ZFS pool '' @ sq @ pool_name z @ sq @ '' exported successfully.'') w1))"

definition import_pool_cmd :: "ZFSManager \<Rightarrow> bool \<Rightarrow> string list" where
  "import_pool_cmd z mount =
     [''zpool'', ''import'', ''-d'', ''/dev/disk/by-id'', ''-f'']
     @ (if \<not> mount then [''-N''] else [])
     @ [pool_name z]"

text \<open>\<open>import_pool\<close> catches every \<^verbatim>\<open>Exception\<close>, its own included, and returns
  \<^verbatim>\<open>False\<close> after a warning.\<close>

definition import_pool :: "proc \<Rightarrow> ZFSManager \<Rightarrow> bool \<Rightarrow> world \<Rightarrow> bool \<times> world" where
  "import_pool env z mount w =
     (let cmd = import_pool_cmd z mount
      in if encryption z
         then (let (r, w1) = popen_communicate env cmd (encryption_passphrase z @ nl) w
               in if returncode r \<noteq> 0
                  then (False,
                        print_exn ''Warning: Failed to import pool: ''
                          (Exception (''Failed to import encrypted ZFS pool: '' @ stderr r) None) w1)
                  else (True,
                        print (''ZFS pool '' @ sq @ pool_name z @ sq @ '' imported successfully.'') w1))
         else (case subprocess_run env True cmd w of
                 (Inl e, w1) \<Rightarrow> (False, print_exn ''Warning: Failed to import pool: '' e w1)
               | (Inr _, w1) \<Rightarrow>
                   (True,
                    print (''ZFS pool '' @ sq @ pool_name z @ sq @ '' imported successfully.'') w1)))"

subsection \<open>Pool configuration: the prompts of \<open>setup_pool\<close>\<close>

text \<open>
  Each \<^verbatim>\<open>inquirer\<close> prompt is modelled by the value it returns. The prompts validate
  what they return (a passphrase of at least 8 characters, a swap size between 1 and 128);
  the confirmation prompt has no validator. \<open>meminfo\<close> is what
  \<open>_get_memory_size\<close> finds in \<^verbatim>\<open>/proc/meminfo\<close>: an exception while reading or parsing
  gives 8, a file with no \<^verbatim>\<open>MemTotal:\<close> line falls off the loop and gives \<^verbatim>\<open>None\<close>.
\<close>

record pool_answers =
  ans_pool_name :: string
  ans_pool_type :: string
  ans_compression :: string
  ans_deduplication :: bool
  ans_encryption :: bool
  ans_passphrase :: string
  ans_confirm_passphrase :: string
  ans_advanced :: bool
  ans_ashift :: int
  ans_autotrim :: bool
  ans_use_swap :: bool
  ans_swap_size :: int

datatype meminfo = Unreadable | NoMemTotal | MemTotal int

definition get_memory_size :: "meminfo \<Rightarrow> int option" where
  "get_memory_size m =
     (case m of
        Unreadable \<Rightarrow> Some 8
      | NoMemTotal \<Rightarrow> None
      | MemTotal mem_kb \<Rightarrow> Some (max (mem_kb div (1024 * 1024)) 1))"

text \<open>The part of \<open>setup_pool\<close> after the encryption block. \<^verbatim>\<open>memory_size // 2\<close> raises
  \<^verbatim>\<open>TypeError\<close> on \<^verbatim>\<open>None\<close>; the default it computes only pre-fills the prompt.\<close>

definition setup_pool_options ::
  "pool_answers \<Rightarrow> meminfo \<Rightarrow> ZFSManager \<Rightarrow> world \<Rightarrow> (exn + unit) \<times> ZFSManager \<times> world" where
  "setup_pool_options a mem z w =
     (let z1 = (if ans_advanced a
                then z\<lparr>ashift := ans_ashift a, autotrim := ans_autotrim a\<rparr>
                else z)
      in if ans_use_swap a
         then (case get_memory_size mem of
                 None \<Rightarrow> (Inl TypeError, z1, w)
               | Some memory_size \<Rightarrow> (Inr (), z1\<lparr>swap_size := ans_swap_size a\<rparr>, w))
         else (Inr (), z1, w))"

text \<open>\<open>setup_pool\<close>. The dictionary it returns repeats the fields it has set and \<open>main\<close>
  drops it, so the model returns \<open>()\<close>.\<close>

definition setup_pool ::
  "pool_answers \<Rightarrow> meminfo \<Rightarrow> ZFSManager \<Rightarrow> world \<Rightarrow> (exn + unit) \<times> ZFSManager \<times> world" where
  "setup_pool a mem z w =
     (let w0 = print ''====================='' (print (nl @ ''ZFS Pool Configuration'') w);
          z1 = z\<lparr>pool_name := ans_pool_name a,
                 pool_type := ans_pool_type a,
                 compression := ans_compression a,
                 deduplication := ans_deduplication a,
                 encryption := ans_encryption a\<rparr>
      in if encryption z1
         then (let z2 = z1\<lparr>encryption_passphrase := ans_passphrase a\<rparr>;
                   confirm_passphrase = ans_confirm_passphrase a
               in if confirm_passphrase \<noteq> encryption_passphrase z2
                  then (Inl (Exception ''Passphrases do not match'' None), z2, w0)
                  else setup_pool_options a mem z2 w0)
         else setup_pool_options a mem z1 w0)"

section \<open>BootManager (utils/boot\_manager.py)\<close>

text \<open>\<^verbatim>\<open>os.path.join(a, b)\<close> for a relative or absolute second part, and
  \<^verbatim>\<open>os.path.dirname\<close>, as \<^verbatim>\<open>posixpath\<close> defines them.\<close>

definition path_join :: "string \<Rightarrow> string \<Rightarrow> string" where
  "path_join a b =
     (if startswith b ''/'' then b
      else if a = [] \<or> last a = CHR ''/'' then a @ b
      else a @ ''/'' @ b)"

definition dirname :: "string \<Rightarrow> string" where
  "dirname p =
     (let head = rev (dropWhile (\<lambda>c. c \<noteq> CHR ''/'') (rev p))
      in if head \<noteq> [] \<and> \<not> list_all (\<lambda>c. c = CHR ''/'') head
         then rev (dropWhile (\<lambda>c. c = CHR ''/'') (rev head))
         else head)"

text \<open>\<^verbatim>\<open>os.makedirs(path, exist_ok=True)\<close>: the environment \<open>fs\<close> says for which paths
  it succeeds; elsewhere it raises \<^verbatim>\<open>OSError\<close>.\<close>

definition makedirs :: "(string \<Rightarrow> bool) \<Rightarrow> string \<Rightarrow> 's \<Rightarrow> (exn + unit) \<times> 's" where
  "makedirs fs path w = (if fs path then (Inr (), w) else (Inl OSError, w))"

text \<open>The fields \<^verbatim>\<open>pool_name\<close> and \<^verbatim>\<open>root_mount\<close> of the class are \<open>bm_pool_name\<close> and
  \<open>bm_root_mount\<close> here: a field name belongs to one record.\<close>

record BootManager =
  bootloader :: string
  kernel :: string
  efi_partition :: "string option"
  boot_partition :: "string option"
  zfs_dataset :: "string option"
  bm_pool_name :: "string option"
  bm_root_mount :: string
  separate_boot :: bool
  dual_boot :: bool

definition BootManager_init :: BootManager where
  "BootManager_init =
     \<lparr>bootloader = ''grub'', kernel = ''linux-lts'', efi_partition = None,
      boot_partition = None, zfs_dataset = None, bm_pool_name = None,
      bm_root_mount = ''/mnt'', separate_boot = False, dual_boot = False\<rparr>"

text \<open>\<open>setup_boot_directories\<close>: a \<^verbatim>\<open>None\<close> partition in the argument list of
  \<^verbatim>\<open>subprocess.run\<close> raises \<^verbatim>\<open>TypeError\<close> before anything is started.\<close>

definition setup_boot_directories ::
  "proc \<Rightarrow> (string \<Rightarrow> bool) \<Rightarrow> BootManager \<Rightarrow> string \<Rightarrow> string \<Rightarrow> string option \<Rightarrow> string option
     \<Rightarrow> world \<Rightarrow> (exn + unit) \<times> BootManager \<times> world" where
  "setup_boot_directories env fs bm root_mnt pool efi_part boot_part w =
     (let bm1 = bm\<lparr>bm_root_mount := root_mnt,
                    bm_pool_name := Some pool,
                    efi_partition := efi_part,
                    boot_partition := boot_part,
                    separate_boot := (boot_part \<noteq> None)\<rparr>;
          efi_dir = path_join root_mnt ''boot/efi''
      in case makedirs fs efi_dir w of
           (Inl e, w1) \<Rightarrow> (Inl e, bm1, w1)
         | (Inr _, w1) \<Rightarrow>
             (case efi_part of
                None \<Rightarrow> (Inl TypeError, bm1, w1)
              | Some efi_p \<Rightarrow>
                  (case subprocess_run env True [''mount'', efi_p, efi_dir] w1 of
                     (Inl e, w2) \<Rightarrow> (Inl (Exception ''Error mounting boot partitions: '' (Some e)), bm1, w2)
                   | (Inr _, w2) \<Rightarrow>
                       (let w3 = print (''Mounted EFI partition at '' @ efi_dir) w2
                        in if separate_boot bm1
                           then (case boot_part of
                                   None \<Rightarrow> (Inl TypeError, bm1, w3)
                                 | Some boot_p \<Rightarrow>
                                     (let boot_dir = path_join root_mnt ''boot''
                                      in case subprocess_run env True [''mount'', boot_p, boot_dir] w3 of
                                           (Inl e, w4) \<Rightarrow>
                                             (Inl (Exception ''Error mounting boot partitions: '' (Some e)), bm1, w4)
                                         | (Inr _, w4) \<Rightarrow>
                                             (Inr (), bm1,
                                              print (''Mounted boot partition at '' @ boot_dir) w4)))
                           else (Inr (), bm1, w3)))))"

text \<open>\<open>unmount_boot\<close>: both \<^verbatim>\<open>umount\<close> calls are under one \<^verbatim>\<open>try\<close> with
  \<^verbatim>\<open>check=True\<close>.\<close>

definition unmount_boot :: "proc \<Rightarrow> BootManager \<Rightarrow> world \<Rightarrow> bool \<times> world" where
  "unmount_boot env bm w =
     (let efi_dir = path_join (bm_root_mount bm) ''boot/efi''
      in case subprocess_run env True [''umount'', efi_dir] w of
           (Inl e, w1) \<Rightarrow> (False, print_exn ''Warning: Failed to unmount boot partitions: '' e w1)
         | (Inr _, w1) \<Rightarrow>
             if separate_boot bm
             then (let boot_dir = path_join (bm_root_mount bm) ''boot''
                   in case subprocess_run env True [''umount'', boot_dir] w1 of
                        (Inl e, w2) \<Rightarrow>
                          (False, print_exn ''Warning: Failed to unmount boot partitions: '' e w2)
                      | (Inr _, w2) \<Rightarrow> (True, print ''Boot partitions unmounted.'' w2))
             else (True, print ''Boot partitions unmounted.'' w1))"

subsection \<open>The HOOKS line of \<open>configure_initramfs\<close>\<close>

text \<open>\<^verbatim>\<open>list.insert\<close> at an index within the list.\<close>

definition list_insert :: "'a list \<Rightarrow> nat \<Rightarrow> 'a \<Rightarrow> 'a list" where
  "list_insert xs i x = take i xs @ [x] @ drop i xs"

text \<open>"Check if we need to add zfs": nothing is done to a list that has the hook.\<close>

definition add_zfs_hook :: "string list \<Rightarrow> string list" where
  "add_zfs_hook hooks_list =
     (if ''zfs'' \<notin> set hooks_list
      then (case list_index hooks_list ''filesystems'' of
              Some idx \<Rightarrow> list_insert hooks_list idx ''zfs''
            | None \<Rightarrow> hooks_list @ [''zfs''])
      else hooks_list)"

text \<open>"Ensure other necessary hooks are present": the loop over the five names, of which
  only those starting with \<^verbatim>\<open>sd-\<close> are added, and only for systemd-boot.\<close>

definition add_sd_hooks :: "string \<Rightarrow> string list \<Rightarrow> string list" where
  "add_sd_hooks bl hooks_list =
     fold (\<lambda>hook hl.
             if bl = ''systemd-boot'' \<and> startswith hook ''sd-''
             then (if hook \<notin> set hl then hl @ [hook] else hl)
             else hl)
          [''keyboard'', ''keymap'', ''encrypt'', ''sd-vconsole'', ''sd-encrypt'']
          hooks_list"

definition patch_hooks :: "string \<Rightarrow> string list \<Rightarrow> string list" where
  "patch_hooks bl hooks_list = add_sd_hooks bl (add_zfs_hook hooks_list)"

text \<open>The text of the line: \<^verbatim>\<open>line.split("=")[1].strip().strip('()"\'').split()\<close> going in,
  \<^verbatim>\<open>f'HOOKS=({" ".join(hooks_list)})\n'\<close> coming out. Whitespace is ASCII whitespace.\<close>

definition is_space :: "char \<Rightarrow> bool" where
  "is_space c = (c \<in> set [CHR 0x20, CHR 0x09, CHR 0x0A, CHR 0x0B, CHR 0x0C, CHR 0x0D,
                           CHR 0x1C, CHR 0x1D, CHR 0x1E, CHR 0x1F])"

definition py_strip :: "string \<Rightarrow> string" where
  "py_strip s = rev (dropWhile is_space (rev (dropWhile is_space s)))"

definition py_strip_chars :: "string \<Rightarrow> string \<Rightarrow> string" where
  "py_strip_chars cs s =
     rev (dropWhile (\<lambda>c. c \<in> set cs) (rev (dropWhile (\<lambda>c. c \<in> set cs) s)))"

fun split_ws :: "string \<Rightarrow> string \<Rightarrow> string list" where
  "split_ws cur [] = (if cur = [] then [] else [cur])"
| "split_ws cur (c # cs) =
     (if is_space c
      then (if cur = [] then split_ws [] cs else cur # split_ws [] cs)
      else split_ws (cur @ [c]) cs)"

definition py_split :: "string \<Rightarrow> string list" where
  "py_split s = split_ws [] s"

text \<open>\<^verbatim>\<open>line.split("=")[1]\<close> for a line with at least one \<^verbatim>\<open>=\<close>, as every line that
  starts with \<^verbatim>\<open>HOOKS=\<close> has: the text between the first \<^verbatim>\<open>=\<close> and the next.\<close>

definition split_eq_1 :: "string \<Rightarrow> string" where
  "split_eq_1 line =
     takeWhile (\<lambda>c. c \<noteq> CHR ''='') (tl (dropWhile (\<lambda>c. c \<noteq> CHR ''='') line))"

fun join_sp :: "string list \<Rightarrow> string" where
  "join_sp [] = []"
| "join_sp [x] = x"
| "join_sp (x # y # ys) = x @ '' '' @ join_sp (y # ys)"

definition parse_hooks :: "string \<Rightarrow> string list" where
  "parse_hooks line =
     py_split (py_strip_chars [CHR ''('', CHR '')'', CHR 0x22, CHR 0x27] (py_strip (split_eq_1 line)))"

definition hooks_line :: "string \<Rightarrow> string \<Rightarrow> string" where
  "hooks_line bl line = ''HOOKS=('' @ join_sp (patch_hooks bl (parse_hooks line)) @ '')'' @ nl"

text \<open>The loop over the lines of \<^verbatim>\<open>mkinitcpio.conf\<close>: the first line that starts with
  \<^verbatim>\<open>HOOKS=\<close> is rewritten, then \<^verbatim>\<open>break\<close>.\<close>

fun patch_hooks_lines :: "string \<Rightarrow> string list \<Rightarrow> string list" where
  "patch_hooks_lines bl [] = []"
| "patch_hooks_lines bl (line # rest) =
     (if startswith line ''HOOKS='' then hooks_line bl line # rest
      else line # patch_hooks_lines bl rest)"

section \<open>Installer (utils/installer.py)\<close>

text \<open>\<^verbatim>\<open>DiskManager.partitions\<close> is a dictionary with the three keys \<^verbatim>\<open>efi\<close>, \<^verbatim>\<open>boot\<close>,
  \<^verbatim>\<open>zfs\<close>, each \<^verbatim>\<open>None\<close> until a partition is chosen.\<close>

record partition_map =
  efi :: "string option"
  boot :: "string option"
  zfs :: "string option"

record DiskManager =
  selected_disk :: "string option"
  partitions :: partition_map
  partition_scheme :: string
  use_separate_boot :: bool

definition DiskManager_init :: DiskManager where
  "DiskManager_init =
     \<lparr>selected_disk = None,
      partitions = \<lparr>efi = None, boot = None, zfs = None\<rparr>,
      partition_scheme = ''full'',
      use_separate_boot = False\<rparr>"

text \<open>The installer holds references to the managers; the record holds their states.\<close>

record Installer =
  disk_manager :: DiskManager
  zfs_manager :: ZFSManager
  boot_manager :: BootManager
  root_mount :: string
  installation_complete :: bool

definition Installer_init :: "DiskManager \<Rightarrow> ZFSManager \<Rightarrow> BootManager \<Rightarrow> Installer" where
  "Installer_init d z b =
     \<lparr>disk_manager = d, zfs_manager = z, boot_manager = b,
      root_mount = ''/mnt'', installation_complete = False\<rparr>"

text \<open>"Mount other datasets": the loop of \<open>mount_filesystems\<close> over the pairs of dataset
  and mountpoint.\<close>

fun mount_datasets ::
  "proc \<Rightarrow> (string \<Rightarrow> bool) \<Rightarrow> string \<Rightarrow> (string \<times> string) list \<Rightarrow> world \<Rightarrow> (exn + unit) \<times> world" where
  "mount_datasets env fs root_mnt [] w = (Inr (), w)"
| "mount_datasets env fs root_mnt ((dataset, mountpoint) # rest) w =
     (let parent_dir = dirname mountpoint
      in case (if parent_dir \<noteq> root_mnt then makedirs fs parent_dir w else (Inr (), w)) of
           (Inl e, w1) \<Rightarrow> (Inl e, w1)
         | (Inr _, w1) \<Rightarrow>
             (case subprocess_run env True [''zfs'', ''set'', ''mountpoint='' @ mountpoint, dataset] w1 of
                (Inl e, w2) \<Rightarrow> (Inl e, w2)
              | (Inr _, w2) \<Rightarrow>
                  (case subprocess_run env True [''zfs'', ''mount'', dataset] w2 of
                     (Inl e, w3) \<Rightarrow> (Inl e, w3)
                   | (Inr _, w3) \<Rightarrow> mount_datasets env fs root_mnt rest w3)))"

text \<open>\<open>mount_filesystems\<close>. Only a \<^verbatim>\<open>CalledProcessError\<close> of the \<^verbatim>\<open>try\<close> block is
  wrapped; \<^verbatim>\<open>datasets['root']\<close> raises \<^verbatim>\<open>KeyError\<close> before the block.\<close>

definition mount_filesystems ::
  "proc \<Rightarrow> (string \<Rightarrow> bool) \<Rightarrow> Installer \<Rightarrow> world \<Rightarrow> (exn + unit) \<times> Installer \<times> world" where
  "mount_filesystems env fs inst w =
     (let z = zfs_manager inst;
          w0 = print (nl @ ''Mounting filesystems...'') w;
          w1 = snd (import_pool env z False w0)
      in case makedirs fs (root_mount inst) w1 of
           (Inl e, w2) \<Rightarrow> (Inl e, inst, w2)
         | (Inr _, w2) \<Rightarrow>
             (case datasets z ''root'' of
                None \<Rightarrow> (Inl (KeyError ''root''), inst, w2)
              | Some None \<Rightarrow> (Inl TypeError, inst, w2)
              | Some (Some root_dataset) \<Rightarrow>
                  (case
                     then_do (subprocess_run env True
                                [''zfs'', ''set'', ''mountpoint='' @ root_mount inst, root_dataset] w2) (\<lambda>_ w.
                     then_do (subprocess_run env True [''zfs'', ''mount'', root_dataset] w) (\<lambda>_ w.
                     then_do (mount_datasets env fs (root_mount inst)
                                [(pool_name z @ ''/home'', root_mount inst @ ''/home''),
                                 (pool_name z @ ''/var'', root_mount inst @ ''/var''),
                                 (pool_name z @ ''/var/log'', root_mount inst @ ''/var/log''),
                                 (pool_name z @ ''/var/cache'', root_mount inst @ ''/var/cache'')] w) (\<lambda>_ w.
                     (Inr (), print ''ZFS datasets mounted successfully.'' w))))
                   of
                     (Inl (CalledProcessError c rc), w3) \<Rightarrow>
                       (Inl (Exception ''Error mounting ZFS datasets: '' (Some (CalledProcessError c rc))),
                        inst, w3)
                   | (Inl e, w3) \<Rightarrow> (Inl e, inst, w3)
                   | (Inr _, w3) \<Rightarrow>
                       (case setup_boot_directories env fs (boot_manager inst) (root_mount inst)
                               (pool_name z) (efi (partitions (disk_manager inst)))
                               (boot (partitions (disk_manager inst))) w3 of
                          (r, bm, w4) \<Rightarrow> (r, inst\<lparr>boot_manager := bm\<rparr>, w4)))))"

text \<open>The loop of \<open>_unmount_filesystems\<close>: \<^verbatim>\<open>check=False\<close>, so no return code raises.
  A \<^verbatim>\<open>None\<close> in the list would raise \<^verbatim>\<open>TypeError\<close> from \<^verbatim>\<open>subprocess.run\<close>.\<close>

fun unmount_datasets :: "proc \<Rightarrow> string option list \<Rightarrow> world \<Rightarrow> (exn + unit) \<times> world" where
  "unmount_datasets env [] w = (Inr (), w)"
| "unmount_datasets env (None # rest) w = (Inl TypeError, w)"
| "unmount_datasets env (Some dataset # rest) w =
     unmount_datasets env rest (snd (subprocess_run env False [''zfs'', ''unmount'', dataset] w))"

text \<open>\<open>_unmount_filesystems\<close>; \<open>export_now\<close> is the answer to "Export ZFS pool now?",
  asked only when the loop has finished.\<close>

definition unmount_filesystems :: "proc \<Rightarrow> bool \<Rightarrow> Installer \<Rightarrow> world \<Rightarrow> world" where
  "unmount_filesystems env export_now inst w =
     (let z = zfs_manager inst;
          w0 = print ''Unmounting filesystems...'' w;
          w1 = snd (unmount_boot env (boot_manager inst) w0);
          r = (case datasets z ''root'' of
                 None \<Rightarrow> (Inl (KeyError ''root''), w1)
               | Some root_dataset \<Rightarrow>
                   then_do (unmount_datasets env
                              [Some (pool_name z @ ''/var/cache''),
                               Some (pool_name z @ ''/var/log''),
                               Some (pool_name z @ ''/var/cache''),
                               Some (pool_name z @ ''/var''),
                               Some (pool_name z @ ''/home''),
                               root_dataset] w1) (\<lambda>_ w.
                   if export_now then (Inr (), snd (export_pool env z w)) else (Inr (), w)));
          w2 = (case r of
                  (Inl e, w') \<Rightarrow>
                    print ''You may need to manually unmount them before rebooting.''
                      (print_exn ''Warning: Error unmounting ZFS datasets: '' e w')
                | (Inr _, w') \<Rightarrow> w')
      in print ''Filesystems unmounted.'' w2)"

text \<open>\<open>cleanup\<close>; removing the empty mount point afterwards has no effect on the commands
  or the output, whether it succeeds or not.\<close>

definition cleanup :: "proc \<Rightarrow> bool \<Rightarrow> Installer \<Rightarrow> world \<Rightarrow> world" where
  "cleanup env export_now inst w =
     (if \<not> installation_complete inst
      then unmount_filesystems env export_now inst (print ''Cleaning up...'' w)
      else w)"

section \<open>The entry point (main.py)\<close>

text \<open>
  The stages of \<open>main\<close> whose inside no property below depends on are parameters: each
  takes the installer's state and the world and returns or raises.
\<close>

type_synonym stage = "Installer \<Rightarrow> world \<Rightarrow> (exn + unit) \<times> Installer \<times> world"

record stages =
  select_disk :: stage
  create_partitions :: stage
  setup_boot_partitions :: stage
  install_base_system :: stage
  configure_system :: stage
  install_bootloader :: stage
  finalize_installation :: stage

text \<open>The body of the \<^verbatim>\<open>try\<close> block.\<close>

definition main_try ::
  "stages \<Rightarrow> proc \<Rightarrow> (string \<Rightarrow> bool) \<Rightarrow> pool_answers \<Rightarrow> meminfo \<Rightarrow> Installer \<Rightarrow> world
     \<Rightarrow> (exn + unit) \<times> Installer \<times> world" where
  "main_try st env fs a mem inst w =
     then_do (select_disk st inst w) (\<lambda>_ (inst, w).
     then_do (create_partitions st inst w) (\<lambda>_ (inst, w).
     then_do (case setup_pool a mem (zfs_manager inst) w of
                (r, z, w') \<Rightarrow> (r, inst\<lparr>zfs_manager := z\<rparr>, w')) (\<lambda>_ (inst, w).
     then_do (case create_pool env (zfs_manager inst)
                     (case zfs (partitions (disk_manager inst)) of
                        None \<Rightarrow> PyNone
                      | Some p \<Rightarrow> PyStr p) w of
                (r, w') \<Rightarrow> (r, inst, w')) (\<lambda>_ (inst, w).
     then_do (case create_datasets env (zfs_manager inst) w of
                (r, z, w') \<Rightarrow> (r, inst\<lparr>zfs_manager := z\<rparr>, w')) (\<lambda>_ (inst, w).
     then_do (setup_boot_partitions st inst w) (\<lambda>_ (inst, w).
     then_do (mount_filesystems env fs inst w) (\<lambda>_ (inst, w).
     then_do (install_base_system st inst w) (\<lambda>_ (inst, w).
     then_do (configure_system st inst w) (\<lambda>_ (inst, w).
     then_do (install_bootloader st inst w) (\<lambda>_ (inst, w).
     then_do (finalize_installation st inst w) (\<lambda>_ (inst, w).
       (Inr (), inst,
        print ''  # zpool export rpool''
          (print ''Don't forget to export the ZFS pool before rebooting:''
             (print ''You can now reboot into your new Arch Linux system.''
                (print (nl @ ''Installation completed successfully!'') w)))))))))))))))"

definition banner :: "world \<Rightarrow> world" where
  "banner w =
     print (''a backup of all important data before proceeding.'' @ nl)
       (print (nl @ ''WARNING: This installer will modify your system. Make sure you have'')
          (print (replicate 80 CHR ''='')
             (print ''Arch Linux ZFS Installer''
                (print (replicate 80 CHR ''='') w))))"

text \<open>\<open>main\<close>: the exit status and the final world. \<open>euid\<close> is \<^verbatim>\<open>os.geteuid()\<close> and
  \<open>debug\<close> the \<^verbatim>\<open>--debug\<close> flag. Neither handler calls anything but \<^verbatim>\<open>print\<close>, the
  traceback printer and \<^verbatim>\<open>sys.exit\<close>.\<close>

definition main ::
  "nat \<Rightarrow> bool \<Rightarrow> stages \<Rightarrow> proc \<Rightarrow> (string \<Rightarrow> bool) \<Rightarrow> pool_answers \<Rightarrow> meminfo \<Rightarrow> world
     \<Rightarrow> int \<times> Installer \<times> world" where
  "main euid debug st env fs a mem w =
     (let w0 = banner w;
          inst0 = Installer_init DiskManager_init ZFSManager_init BootManager_init
      in if euid \<noteq> 0
         then (1, inst0,
               print ''Please run this script with sudo or as the root user.''
                 (print ''Error: This installer must be run with root privileges.'' w0))
         else (case main_try st env fs a mem inst0 w0 of
                 (Inl KeyboardInterrupt, inst, w1) \<Rightarrow>
                   (130, inst, print (nl @ ''Installation cancelled by user.'') w1)
               | (Inl e, inst, w1) \<Rightarrow>
                   (let w2 = print_exn (nl @ ''Error during installation: '') e w1
                    in (1, inst, if debug then print_exn ''Traceback (most recent call last):'' e w2 else w2))
               | (Inr _, inst, w1) \<Rightarrow> (0, inst, w1)))"

section \<open>Command traces\<close>

text \<open>
  \<open>emits res w cs\<close> relates the outcome \<open>res\<close> of a step that started in world \<open>w\<close> to the
  list \<open>cs\<close> of argument vectors the step runs when nothing fails: what the step added to
  the commands of \<open>w\<close> is a prefix of \<open>cs\<close>, and all of \<open>cs\<close> when the step returned.
\<close>

definition emits :: "(exn + 'a) \<times> world \<Rightarrow> world \<Rightarrow> string list list \<Rightarrow> bool" where
  "emits res w cs \<longleftrightarrow>
     (\<exists>p. prefix p cs \<and> map fst (calls (snd res)) = map fst (calls w) @ p
          \<and> (\<not> isl (fst res) \<longrightarrow> p = cs))"

section \<open>Order in a list\<close>


section \<open>Sample inputs\<close>

text \<open>The closed instances below run the model in an environment where every command
  returns 0, from a world in which nothing has been issued or printed.\<close>

abbreviation all_succeed :: proc where
  "all_succeed \<equiv> (\<lambda>history c. \<lparr>returncode = 0, stderr = []\<rparr>)"

abbreviation fresh :: world where
  "fresh \<equiv> \<lparr>calls = [], out = []\<rparr>"

text \<open>Two environments with one failing tool: \<^verbatim>\<open>umount\<close> of the EFI directory returns 32
  (busy), or every \<^verbatim>\<open>zfs create\<close> returns 1.\<close>

abbreviation efi_busy :: proc where
  "efi_busy \<equiv> (\<lambda>history c. \<lparr>returncode = (if fst c = [''umount'', ''/mnt/boot/efi''] then 32 else 0),
                                 stderr = []\<rparr>)"

abbreviation zfs_create_fails :: proc where
  "zfs_create_fails \<equiv> (\<lambda>history c.
     \<lparr>returncode = (if take 2 (fst c) = [''zfs'', ''create''] then 1 else 0), stderr = []\<rparr>)"

text \<open>The installer after partitioning \<^verbatim>\<open>/dev/sda\<close> without a separate boot partition and
  after \<open>create_datasets\<close> on the default pool.\<close>

abbreviation sample_installer :: Installer where
  "sample_installer \<equiv>
     Installer_init
       (DiskManager_init\<lparr>partitions := \<lparr>efi = Some ''/dev/sda1'', boot = None, zfs = Some ''/dev/sda2''\<rparr>\<rparr>)
       (ZFSManager_init\<lparr>datasets := [''root'' \<mapsto> Some ''rpool/ROOT/arch'',
                                      ''home'' \<mapsto> Some ''rpool/home'',
                                      ''var'' \<mapsto> Some ''rpool/var'',
                                      ''swap'' \<mapsto> None]\<rparr>)
       BootManager_init"

text \<open>Stages that return without a command, the partitioning stage leaving the two
  partitions above, and the answers that accept every default but encryption and swap.\<close>

abbreviation stage_ok :: stage where
  "stage_ok \<equiv> (\<lambda>inst w. (Inr (), inst, w))"

abbreviation disk_ready :: stage where
  "disk_ready \<equiv> (\<lambda>inst w.
     (Inr (),
      inst\<lparr>disk_manager := (disk_manager inst)
              \<lparr>partitions := \<lparr>efi = Some ''/dev/sda1'', boot = None, zfs = Some ''/dev/sda2''\<rparr>\<rparr>\<rparr>,
      w))"

abbreviation sample_stages :: stages where
  "sample_stages \<equiv>
     \<lparr>select_disk = stage_ok, create_partitions = disk_ready, setup_boot_partitions = stage_ok,
      install_base_system = stage_ok, configure_system = stage_ok, install_bootloader = stage_ok,
      finalize_installation = stage_ok\<rparr>"

abbreviation sample_answers :: pool_answers where
  "sample_answers \<equiv>
     \<lparr>ans_pool_name = ''rpool'', ans_pool_type = ''single'', ans_compression = ''lz4'',
      ans_deduplication = False, ans_encryption = False,
      ans_passphrase = [], ans_confirm_passphrase = [],
      ans_advanced = False, ans_ashift = 12, ans_autotrim = True,
      ans_use_swap = False, ans_swap_size = 0\<rparr>"

section \<open>Properties\<close>

subsection \<open>What a step adds to the list of commands\<close>

lemma calls_print [simp]: "calls (print s w) = calls w"
  by (simp add: print_def)

lemma calls_print_exn [simp]: "calls (print_exn s e w) = calls w"
  by (simp add: print_exn_def)

lemma calls_subprocess_run [simp]:
  "calls (snd (subprocess_run env check cmd w)) = calls w @ [(cmd, None)]"
  by (simp add: subprocess_run_def Let_def)

lemma calls_popen_communicate [simp]:
  "calls (snd (popen_communicate env cmd inp w)) = calls w @ [(cmd, Some inp)]"
  by (simp add: popen_communicate_def)

lemma create_pool_calls:
  "create_pool_cmd z ps = Inr cmd \<Longrightarrow>
   calls (snd (create_pool env z (PyList ps) w)) =
     calls w @ [(cmd, if encryption z then Some (encryption_passphrase z @ nl) else None)]"
  by (auto simp: create_pool_def as_partition_list_def Let_def subprocess_run_def popen_communicate_def
           split: prod.splits sum.splits)

lemma import_pool_calls:
  "calls (snd (import_pool env z mount w)) =
     calls w @ [(import_pool_cmd z mount, if encryption z then Some (encryption_passphrase z @ nl) else None)]"
  by (auto simp: import_pool_def Let_def subprocess_run_def popen_communicate_def
           split: prod.splits sum.splits)

subsection \<open>Decimal numerals\<close>

lemma digit_value_digit_char: "d < 10 \<Longrightarrow> digit_value (digit_char d) = Some d"
proof -
  assume "d < 10"
  then have "d \<in> {0,1,2,3,4,5,6,7,8,9}" by auto
  then show ?thesis
    by (auto simp: digit_value_def digit_char_def)
qed

lemma decimal_value_from_append:
  "decimal_value_from acc (xs @ ys) =
     (case decimal_value_from acc xs of None \<Rightarrow> None | Some v \<Rightarrow> decimal_value_from v ys)"
  by (induction xs arbitrary: acc) (auto split: option.splits)

lemma decimal_value_from_str_nat: "decimal_value_from 0 (str_nat n) = Some n"
proof (induction n rule: str_nat.induct)
  case (1 n)
  show ?case
  proof (cases "n < 10")
    case True
    then show ?thesis
      by (subst str_nat.simps) (simp add: digit_value_digit_char)
  next
    case False
    with 1 have ih: "decimal_value_from 0 (str_nat (n div 10)) = Some (n div 10)" by simp
    have "n mod 10 < 10" by simp
    then have dv: "digit_value (digit_char (n mod 10)) = Some (n mod 10)"
      by (rule digit_value_digit_char)
    from False show ?thesis
      by (subst str_nat.simps) (simp add: decimal_value_from_append ih dv)
  qed
qed

lemma str_nat_nonempty: "str_nat n \<noteq> []"
  by (subst str_nat.simps) simp

lemma decimal_value_str_int: "0 \<le> i \<Longrightarrow> decimal_value (str_int i) = Some (nat i)"
  by (simp add: decimal_value_def str_int_def str_nat_nonempty decimal_value_from_str_nat)

lemma str_int_12: "str_int 12 = ''12''"
  by (simp add: str_int_def str_nat.simps digit_char_def)

subsection \<open>Pool configuration\<close>

text \<open>
  Claim C2. When encryption is chosen and the confirmation differs from the passphrase,
  \<open>setup_pool\<close> raises \<^verbatim>\<open>Exception("Passphrases do not match")\<close>, and the list of commands
  issued is the one it started with: no external command runs in that step.
\<close>

theorem setup_pool_mismatch:
  assumes "ans_encryption a" and "ans_confirm_passphrase a \<noteq> ans_passphrase a"
  shows "fst (setup_pool a mem z w) = Inl (Exception ''Passphrases do not match'' None)
       \<and> calls (snd (snd (setup_pool a mem z w))) = calls w"
  using assms by (simp add: setup_pool_def Let_def)

theorem setup_pool_mismatch_witness:
  "fst (setup_pool
          \<lparr>ans_pool_name = ''rpool'', ans_pool_type = ''single'', ans_compression = ''lz4'',
           ans_deduplication = False, ans_encryption = True,
           ans_passphrase = ''correct horse'', ans_confirm_passphrase = ''correct horsf'',
           ans_advanced = False, ans_ashift = 12, ans_autotrim = True,
           ans_use_swap = True, ans_swap_size = 8\<rparr>
          (MemTotal 16777216) ZFSManager_init fresh)
     = Inl (Exception ''Passphrases do not match'' None)
   \<and> calls (snd (snd (setup_pool
          \<lparr>ans_pool_name = ''rpool'', ans_pool_type = ''single'', ans_compression = ''lz4'',
           ans_deduplication = False, ans_encryption = True,
           ans_passphrase = ''correct horse'', ans_confirm_passphrase = ''correct horsf'',
           ans_advanced = False, ans_ashift = 12, ans_autotrim = True,
           ans_use_swap = True, ans_swap_size = 8\<rparr>
          (MemTotal 16777216) ZFSManager_init fresh))) = []"
  using setup_pool_mismatch
          [of "\<lparr>ans_pool_name = ''rpool'', ans_pool_type = ''single'', ans_compression = ''lz4'',
                ans_deduplication = False, ans_encryption = True,
                ans_passphrase = ''correct horse'', ans_confirm_passphrase = ''correct horsf'',
                ans_advanced = False, ans_ashift = 12, ans_autotrim = True,
                ans_use_swap = True, ans_swap_size = 8\<rparr>"
              "MemTotal 16777216" ZFSManager_init fresh]
  by simp

subsection \<open>Pool creation and import\<close>

text \<open>
  Claim C3, as stated, fails: the argument vector is built from the configuration, and a
  passphrase can coincide with text that is there anyway. With encryption on and the
  passphrase \<^verbatim>\<open>passphrase\<close> (ten characters, accepted by the prompt), the argument
  \<^verbatim>\<open>keyformat=passphrase\<close> of the pool-creation command contains it.
\<close>

theorem passphrase_in_argv_counterexample:
  "encryption (ZFSManager_init\<lparr>encryption := True, encryption_passphrase := ''passphrase''\<rparr>)
   \<and> create_pool_cmd (ZFSManager_init\<lparr>encryption := True, encryption_passphrase := ''passphrase''\<rparr>)
        [''/dev/sda2'']
       = Inr [''zpool'', ''create'', ''-f'', ''-o'', ''ashift=12'', ''-o'', ''autotrim=on'',
              ''-O'', ''compression=lz4'', ''-O'', ''normalization=formD'', ''-O'', ''acltype=posixacl'',
              ''-O'', ''xattr=sa'', ''-O'', ''relatime=on'', ''-O'', ''canmount=off'',
              ''-O'', ''encryption=aes-256-gcm'', ''-O'', ''keylocation=prompt'',
              ''-O'', ''keyformat=passphrase'', ''-O'', ''mountpoint=none'', ''rpool'', ''/dev/sda2'']
   \<and> sublist (encryption_passphrase
                 (ZFSManager_init\<lparr>encryption := True, encryption_passphrase := ''passphrase''\<rparr>))
              ''keyformat=passphrase''"
proof -
  have "sublist ''passphrase'' (''keyformat='' @ ''passphrase'' @ [])"
    by (rule sublist_appendI)
  then have "sublist ''passphrase'' ''keyformat=passphrase''" by simp
  then show ?thesis
    by (simp add: create_pool_cmd_def create_pool_vdevs_def create_pool_options_def
          ZFSManager_init_def str_int_12)
qed

lemma create_pool_options_passphrase:
  "create_pool_options (z\<lparr>encryption_passphrase := p\<rparr>) = create_pool_options z"
  by (simp add: create_pool_options_def)

lemma create_pool_vdevs_passphrase:
  "create_pool_vdevs (z\<lparr>encryption_passphrase := p\<rparr>) ps = create_pool_vdevs z ps"
  by (simp add: create_pool_vdevs_def)

lemma create_pool_cmd_passphrase:
  "create_pool_cmd (z\<lparr>encryption_passphrase := p\<rparr>) ps = create_pool_cmd z ps"
  by (simp add: create_pool_cmd_def create_pool_options_passphrase create_pool_vdevs_passphrase
        split: sum.splits)

lemma import_pool_cmd_passphrase:
  "import_pool_cmd (z\<lparr>encryption_passphrase := p\<rparr>) mount = import_pool_cmd z mount"
  by (simp add: import_pool_cmd_def)

text \<open>
  Claim C3, amended. With encryption on, the argument vectors of the pool-creation and
  pool-import commands do not depend on the passphrase: two configurations that differ in
  the passphrase alone give the same vectors. \<open>create_pool\<close> and \<open>import_pool\<close> each issue
  exactly one command, with that vector, and pipe the passphrase followed by a newline to
  its standard input.
\<close>

theorem passphrase_only_on_stdin:
  assumes "encryption z"
  shows "create_pool_cmd (z\<lparr>encryption_passphrase := p\<rparr>) ps
           = create_pool_cmd (z\<lparr>encryption_passphrase := q\<rparr>) ps
       \<and> import_pool_cmd (z\<lparr>encryption_passphrase := p\<rparr>) mount
           = import_pool_cmd (z\<lparr>encryption_passphrase := q\<rparr>) mount
       \<and> (\<forall>cmd. create_pool_cmd z ps = Inr cmd \<longrightarrow>
            calls (snd (create_pool env z (PyList ps) w))
              = calls w @ [(cmd, Some (encryption_passphrase z @ nl))])
       \<and> calls (snd (import_pool env z mount w))
           = calls w @ [(import_pool_cmd z mount, Some (encryption_passphrase z @ nl))]"
proof -
  have "\<forall>cmd. create_pool_cmd z ps = Inr cmd \<longrightarrow>
            calls (snd (create_pool env z (PyList ps) w))
              = calls w @ [(cmd, Some (encryption_passphrase z @ nl))]"
    using assms by (simp add: create_pool_calls)
  moreover have "calls (snd (import_pool env z mount w))
           = calls w @ [(import_pool_cmd z mount, Some (encryption_passphrase z @ nl))]"
    using assms by (simp add: import_pool_calls)
  ultimately show ?thesis
    by (simp only: create_pool_cmd_passphrase import_pool_cmd_passphrase simp_thms)
qed

theorem passphrase_only_on_stdin_witness:
  "encryption (ZFSManager_init\<lparr>encryption := True, encryption_passphrase := ''correct horse''\<rparr>)
   \<and> create_pool_cmd (ZFSManager_init\<lparr>encryption := True, encryption_passphrase := ''correct horse''\<rparr>)
        [''/dev/sda2'']
     = create_pool_cmd (ZFSManager_init\<lparr>encryption := True, encryption_passphrase := ''battery staple''\<rparr>)
        [''/dev/sda2'']
   \<and> calls (snd (import_pool all_succeed
        (ZFSManager_init\<lparr>encryption := True, encryption_passphrase := ''correct horse''\<rparr>) False fresh))
     = [([''zpool'', ''import'', ''-d'', ''/dev/disk/by-id'', ''-f'', ''-N'', ''rpool''],
         Some (''correct horse'' @ nl))]"
  using passphrase_only_on_stdin
          [of "ZFSManager_init\<lparr>encryption := True\<rparr>" "''correct horse''" "[''/dev/sda2'']"
              "''battery staple''" False all_succeed fresh]
        passphrase_only_on_stdin
          [of "ZFSManager_init\<lparr>encryption := True, encryption_passphrase := ''correct horse''\<rparr>"
              "''correct horse''" "[''/dev/sda2'']" "''battery staple''" False all_succeed fresh]
  by (simp add: import_pool_cmd_def ZFSManager_init_def)

lemma create_pool_options_pool_type:
  "create_pool_options (z\<lparr>pool_type := t\<rparr>) = create_pool_options z"
  by (simp add: create_pool_options_def)

lemma create_pool_cmd_one: "create_pool_cmd z [p] = Inr (create_pool_options z @ [p])"
  by (simp add: create_pool_cmd_def create_pool_vdevs_def)

text \<open>
  Claim C10. A string argument is treated as the list holding that string, so
  \<open>create_pool\<close> does the same on both. On a list of one partition, and so on a string,
  \<open>create_pool\<close> issues exactly one command, the one of the single-device layout (the
  options, ending with the pool name, then the device), whatever the pool type says.
\<close>

theorem create_pool_str_as_list:
  "create_pool env z (PyStr s) w = create_pool env z (PyList [s]) w
   \<and> create_pool_cmd z [p] = Inr (create_pool_options z @ [p])
   \<and> create_pool_cmd (z\<lparr>pool_type := t\<rparr>) [p] = create_pool_cmd (z\<lparr>pool_type := ''single''\<rparr>) [p]
   \<and> calls (snd (create_pool env z (PyList [p]) w))
       = calls w @ [(create_pool_options z @ [p],
                     if encryption z then Some (encryption_passphrase z @ nl) else None)]
   \<and> calls (snd (create_pool env z (PyStr p) w))
       = calls w @ [(create_pool_options z @ [p],
                     if encryption z then Some (encryption_passphrase z @ nl) else None)]
   \<and> calls (snd (create_pool env (z\<lparr>pool_type := t\<rparr>) (PyList [p]) w))
       = calls w @ [(create_pool_options z @ [p],
                     if encryption z then Some (encryption_passphrase z @ nl) else None)]
   \<and> calls (snd (create_pool env (z\<lparr>pool_type := t\<rparr>) (PyStr p) w))
       = calls w @ [(create_pool_options z @ [p],
                     if encryption z then Some (encryption_passphrase z @ nl) else None)]"
proof -
  have str: "create_pool env y (PyStr q) v = create_pool env y (PyList [q]) v" for y q v
    by (simp add: create_pool_def as_partition_list_def)
  have lst: "calls (snd (create_pool env y (PyList [p]) w))
       = calls w @ [(create_pool_options y @ [p],
                     if encryption y then Some (encryption_passphrase y @ nl) else None)]" for y
    by (rule create_pool_calls [OF create_pool_cmd_one])
  have ty: "calls (snd (create_pool env (z\<lparr>pool_type := t\<rparr>) (PyList [p]) w))
       = calls w @ [(create_pool_options z @ [p],
                     if encryption z then Some (encryption_passphrase z @ nl) else None)]"
    using lst [of "z\<lparr>pool_type := t\<rparr>"] by (simp add: create_pool_options_pool_type)
  have cmd: "create_pool_cmd (z\<lparr>pool_type := t\<rparr>) [p] = create_pool_cmd (z\<lparr>pool_type := ''single''\<rparr>) [p]"
    by (simp add: create_pool_cmd_one create_pool_options_pool_type)
  show ?thesis
    using str [of z s w] create_pool_cmd_one [of z p] cmd lst [of z] ty
    by (simp only: str simp_thms)
qed

text \<open>
  Claim C5, as stated, fails on a list of one partition: with pool type \<^verbatim>\<open>mirror\<close> and the
  single partition \<^verbatim>\<open>/dev/sda2\<close> the command ends with the pool name and the device, and
  the keyword \<^verbatim>\<open>mirror\<close> is nowhere in it. The test \<^verbatim>\<open>len(zfs_partitions) == 1\<close> in the
  first branch decides this.
\<close>

theorem create_pool_mirror_one_device_counterexample:
  "create_pool_cmd (ZFSManager_init\<lparr>pool_type := ''mirror''\<rparr>) [''/dev/sda2'']
     = Inr (create_pool_options (ZFSManager_init\<lparr>pool_type := ''mirror''\<rparr>) @ [''/dev/sda2''])
   \<and> ''mirror'' \<notin> set (create_pool_options (ZFSManager_init\<lparr>pool_type := ''mirror''\<rparr>) @ [''/dev/sda2''])"
  by (simp add: create_pool_cmd_def create_pool_vdevs_def create_pool_options_def ZFSManager_init_def)

text \<open>
  Claim C5, amended. For a non-empty list of partitions the command is the options, ending
  with the pool name, followed by: the first device alone when the pool type is
  \<^verbatim>\<open>single\<close> or the list has one element; \<^verbatim>\<open>mirror\<close> and all devices in order when the
  type is \<^verbatim>\<open>mirror\<close> and there are at least two; the pool type and all devices in order
  when the type is \<^verbatim>\<open>raidz1\<close> or \<^verbatim>\<open>raidz2\<close> and there are at least two. That command is
  the one command \<open>create_pool\<close> issues.
\<close>

theorem create_pool_topology:
  assumes "zfs_partitions \<noteq> []"
  shows "(pool_type z = ''single'' \<or> length zfs_partitions = 1 \<longrightarrow>
            create_pool_cmd z zfs_partitions = Inr (create_pool_options z @ [hd zfs_partitions]))
       \<and> (pool_type z = ''mirror'' \<and> 2 \<le> length zfs_partitions \<longrightarrow>
            create_pool_cmd z zfs_partitions = Inr (create_pool_options z @ ''mirror'' # zfs_partitions))
       \<and> ((pool_type z = ''raidz1'' \<or> pool_type z = ''raidz2'') \<and> 2 \<le> length zfs_partitions \<longrightarrow>
            create_pool_cmd z zfs_partitions = Inr (create_pool_options z @ pool_type z # zfs_partitions))
       \<and> last (create_pool_options z) = pool_name z
       \<and> (\<forall>cmd. create_pool_cmd z zfs_partitions = Inr cmd \<longrightarrow>
            map fst (calls (snd (create_pool env z (PyList zfs_partitions) w))) = map fst (calls w) @ [cmd])"
  using assms
  by (cases zfs_partitions)
     (auto simp: create_pool_cmd_def create_pool_vdevs_def create_pool_options_def startswith_def
        create_pool_calls)

text \<open>The instance is Scenario A of the specification: a mirror of \<^verbatim>\<open>/dev/sda2\<close> and
  \<^verbatim>\<open>/dev/sdb2\<close>.\<close>

theorem create_pool_topology_witness:
  "[''/dev/sda2'', ''/dev/sdb2''] \<noteq> []
   \<and> map fst (calls (snd (create_pool all_succeed (ZFSManager_init\<lparr>pool_type := ''mirror''\<rparr>)
                              (PyList [''/dev/sda2'', ''/dev/sdb2'']) fresh)))
     = [[''zpool'', ''create'', ''-f'', ''-o'', ''ashift=12'', ''-o'', ''autotrim=on'',
         ''-O'', ''compression=lz4'', ''-O'', ''normalization=formD'', ''-O'', ''acltype=posixacl'',
         ''-O'', ''xattr=sa'', ''-O'', ''relatime=on'', ''-O'', ''canmount=off'',
         ''-O'', ''mountpoint=none'', ''rpool'', ''mirror'', ''/dev/sda2'', ''/dev/sdb2'']]"
proof -
  have c: "create_pool_cmd (ZFSManager_init\<lparr>pool_type := ''mirror''\<rparr>) [''/dev/sda2'', ''/dev/sdb2'']
     = Inr [''zpool'', ''create'', ''-f'', ''-o'', ''ashift=12'', ''-o'', ''autotrim=on'',
         ''-O'', ''compression=lz4'', ''-O'', ''normalization=formD'', ''-O'', ''acltype=posixacl'',
         ''-O'', ''xattr=sa'', ''-O'', ''relatime=on'', ''-O'', ''canmount=off'',
         ''-O'', ''mountpoint=none'', ''rpool'', ''mirror'', ''/dev/sda2'', ''/dev/sdb2'']"
    by (simp add: create_pool_cmd_def create_pool_vdevs_def create_pool_options_def
          ZFSManager_init_def str_int_12)
  have n: "[''/dev/sda2'', ''/dev/sdb2''] \<noteq> []" by simp
  from create_pool_topology [OF n, of "ZFSManager_init\<lparr>pool_type := ''mirror''\<rparr>" all_succeed fresh] c
  show ?thesis by simp
qed

subsection \<open>The swap volume\<close>

text \<open>
  Claim C9. For a swap size \<open>N\<close> from 1 to 128, the operand of \<^verbatim>\<open>-V\<close> in the command of
  \<open>_create_swap_zvol\<close> is the decimal numeral of \<open>N * 1073741824\<close>: it is \<open>str\<close> of that
  product and reads back as that number. The command is the first one the function issues.
\<close>

theorem swap_zvol_size:
  assumes "1 \<le> swap_size z" and "swap_size z \<le> 128"
  shows "create_swap_zvol_cmd z ! 2 = ''-V''
       \<and> create_swap_zvol_cmd z ! 3 = str_int (swap_size z * 1073741824)
       \<and> decimal_value (create_swap_zvol_cmd z ! 3) = Some (nat (swap_size z) * 1073741824)
       \<and> calls (snd (create_swap_zvol env z w)) ! length (calls w) = (create_swap_zvol_cmd z, None)"
proof -
  have a: "create_swap_zvol_cmd z ! 2 = ''-V''"
    by (simp add: create_swap_zvol_cmd_def Let_def)
  have "swap_size z * 1024 * 1024 * 1024 = swap_size z * 1073741824" by simp
  then have b: "create_swap_zvol_cmd z ! 3 = str_int (swap_size z * 1073741824)"
    by (simp add: create_swap_zvol_cmd_def Let_def mult.commute)
  have "0 \<le> swap_size z * 1073741824" using assms by simp
  then have "decimal_value (str_int (swap_size z * 1073741824)) = Some (nat (swap_size z * 1073741824))"
    by (rule decimal_value_str_int)
  moreover have "nat (swap_size z * 1073741824) = nat (swap_size z) * 1073741824"
    using assms by (simp add: nat_mult_distrib)
  ultimately have c: "decimal_value (create_swap_zvol_cmd z ! 3) = Some (nat (swap_size z) * 1073741824)"
    by (simp only: b)
  have d: "calls (snd (create_swap_zvol env z w)) ! length (calls w) = (create_swap_zvol_cmd z, None)"
    by (auto simp: create_swap_zvol_def subprocess_run_def Let_def nth_append split: prod.splits sum.splits)
  from a b c d show ?thesis by blast
qed

theorem swap_zvol_size_witness:
  "(1::int) \<le> 8 \<and> (8::int) \<le> 128
   \<and> create_swap_zvol_cmd (ZFSManager_init\<lparr>swap_size := 8\<rparr>) ! 3 = ''8589934592''
   \<and> decimal_value (create_swap_zvol_cmd (ZFSManager_init\<lparr>swap_size := 8\<rparr>) ! 3) = Some 8589934592"
proof -
  have s: "str_int 8589934592 = ''8589934592''"
    by (simp add: str_int_def str_nat.simps digit_char_def)
  have h1: "1 \<le> swap_size (ZFSManager_init\<lparr>swap_size := 8\<rparr>)" by simp
  have h2: "swap_size (ZFSManager_init\<lparr>swap_size := 8\<rparr>) \<le> 128" by simp
  note t = swap_zvol_size [OF h1 h2, of all_succeed fresh]
  from t [THEN conjunct2, THEN conjunct1] s
  have b: "create_swap_zvol_cmd (ZFSManager_init\<lparr>swap_size := 8\<rparr>) ! 3 = ''8589934592''"
    by simp
  from t [THEN conjunct2, THEN conjunct2, THEN conjunct1]
  have c: "decimal_value (create_swap_zvol_cmd (ZFSManager_init\<lparr>swap_size := 8\<rparr>) ! 3)
             = Some 8589934592"
    by simp
  show ?thesis
  proof (intro conjI)
    show "(1::int) \<le> 8" by simp
    show "(8::int) \<le> 128" by simp
    show "create_swap_zvol_cmd (ZFSManager_init\<lparr>swap_size := 8\<rparr>) ! 3 = ''8589934592''"
      by (rule b)
    show "decimal_value (create_swap_zvol_cmd (ZFSManager_init\<lparr>swap_size := 8\<rparr>) ! 3)
            = Some 8589934592"
      by (rule c)
  qed
qed

subsection \<open>Sequences of commands\<close>

lemma emits_then_do:
  assumes "emits r w cs" and "\<And>x w1. emits (g x w1) w1 ds"
  shows "emits (then_do r g) w (cs @ ds)"
proof (cases r)
  case (Pair a w1)
  show ?thesis
  proof (cases a)
    case (Inl e)
    with Pair assms(1) show ?thesis
      by (auto simp: emits_def then_do_def)
  next
    case (Inr x)
    with Pair assms(1) have c1: "map fst (calls w1) = map fst (calls w) @ cs"
      by (auto simp: emits_def)
    from assms(2) [of x w1] obtain p where
      p: "prefix p ds" "map fst (calls (snd (g x w1))) = map fst (calls w1) @ p"
         "\<not> isl (fst (g x w1)) \<longrightarrow> p = ds"
      by (auto simp: emits_def)
    have "prefix (cs @ p) (cs @ ds)" using p(1) by simp
    moreover have "map fst (calls (snd (then_do r g))) = map fst (calls w) @ (cs @ p)"
      using Pair Inr p(2) c1 by (simp add: then_do_def)
    moreover have "\<not> isl (fst (then_do r g)) \<longrightarrow> cs @ p = cs @ ds"
      using Pair Inr p(3) by (simp add: then_do_def)
    ultimately show ?thesis unfolding emits_def by blast
  qed
qed

lemma emits_eq: "emits r w cs \<Longrightarrow> cs = es \<Longrightarrow> emits r w es"
  by simp

lemma emits_subprocess_run: "emits (subprocess_run env True cmd w) w [cmd]"
  by (auto simp: emits_def subprocess_run_def Let_def)

lemma emits_create_dataset:
  "emits (create_dataset env name props w) w
     [[''zfs'', ''create'', ''-p''] @ concat (map (\<lambda>prop. [''-o'', prop]) props) @ [name]]"
  by (auto simp: emits_def create_dataset_def subprocess_run_def Let_def)

lemma emits_create_swap_zvol:
  "emits (create_swap_zvol env z w) w
     [create_swap_zvol_cmd z, [''mkswap'', ''-f'', ''/dev/zvol/'' @ pool_name z @ ''/swap'']]"
  by (auto simp: emits_def create_swap_zvol_def subprocess_run_def Let_def)

lemma emits_swap_step:
  "emits (if swap_size z > 0
          then (case create_swap_zvol env z w of
                  (Inl e, w') \<Rightarrow> (Inl e, w')
                | (Inr _, w') \<Rightarrow> (Inr (), w'))
          else (Inr (), w)) w
     (if swap_size z > 0
      then [create_swap_zvol_cmd z, [''mkswap'', ''-f'', ''/dev/zvol/'' @ pool_name z @ ''/swap'']]
      else [])"
  using emits_create_swap_zvol [of env z w]
  by (auto simp: emits_def split: prod.splits sum.splits)

lemma emitsD:
  assumes "emits res w cs"
  shows "prefix (drop (length (calls w)) (map fst (calls (snd res)))) cs
       \<and> take (length (calls w)) (map fst (calls (snd res))) = map fst (calls w)
       \<and> (\<not> isl (fst res) \<longrightarrow> drop (length (calls w)) (map fst (calls (snd res))) = cs)"
  using assms by (auto simp: emits_def)

subsection \<open>Dataset creation\<close>

lemma create_datasets_steps_emits:
  "emits (create_datasets_steps env z w) w
     ([[''zfs'', ''create'', ''-p'', ''-o'', ''canmount=off'', ''-o'', ''mountpoint=none'',
        pool_name z @ ''/ROOT''],
       [''zfs'', ''create'', ''-p'', ''-o'', ''canmount=noauto'', ''-o'', ''mountpoint=/'',
        ''-o'', ''com.sun:auto-snapshot=true'', pool_name z @ ''/ROOT/arch''],
       [''zfs'', ''create'', ''-p'', ''-o'', ''mountpoint=/home'',
        ''-o'', ''com.sun:auto-snapshot=true'', pool_name z @ ''/home''],
       [''zfs'', ''create'', ''-p'', ''-o'', ''mountpoint=/var'',
        ''-o'', ''com.sun:auto-snapshot=false'', pool_name z @ ''/var''],
       [''zfs'', ''create'', ''-p'', ''-o'', ''mountpoint=/var/log'', pool_name z @ ''/var/log''],
       [''zfs'', ''create'', ''-p'', ''-o'', ''mountpoint=/var/cache'', pool_name z @ ''/var/cache'']]
      @ (if swap_size z > 0
         then [create_swap_zvol_cmd z, [''mkswap'', ''-f'', ''/dev/zvol/'' @ pool_name z @ ''/swap'']]
         else [])
      @ [[''zpool'', ''set'', ''bootfs='' @ pool_name z @ ''/ROOT/arch'', pool_name z]])"
  unfolding create_datasets_steps_def Let_def
  apply (rule emits_eq)
   apply (rule emits_then_do emits_create_dataset emits_swap_step emits_subprocess_run)+
  apply simp
  done

lemma prefix_nth: "prefix p xs \<Longrightarrow> i < length p \<Longrightarrow> p ! i = xs ! i"
  by (auto simp: prefix_def nth_append)

text \<open>In a prefix of the list of \<open>create_datasets\<close>, the bootfs command is past index 1,
  where the root dataset's creation command is.\<close>

lemma bootfs_after_root:
  assumes "prefix p
     ([[''zfs'', ''create'', ''-p'', ''-o'', ''canmount=off'', ''-o'', ''mountpoint=none'',
        pool_name z @ ''/ROOT''],
       [''zfs'', ''create'', ''-p'', ''-o'', ''canmount=noauto'', ''-o'', ''mountpoint=/'',
        ''-o'', ''com.sun:auto-snapshot=true'', pool_name z @ ''/ROOT/arch''],
       [''zfs'', ''create'', ''-p'', ''-o'', ''mountpoint=/home'',
        ''-o'', ''com.sun:auto-snapshot=true'', pool_name z @ ''/home''],
       [''zfs'', ''create'', ''-p'', ''-o'', ''mountpoint=/var'',
        ''-o'', ''com.sun:auto-snapshot=false'', pool_name z @ ''/var''],
       [''zfs'', ''create'', ''-p'', ''-o'', ''mountpoint=/var/log'', pool_name z @ ''/var/log''],
       [''zfs'', ''create'', ''-p'', ''-o'', ''mountpoint=/var/cache'', pool_name z @ ''/var/cache'']]
      @ (if swap_size z > 0
         then [create_swap_zvol_cmd z, [''mkswap'', ''-f'', ''/dev/zvol/'' @ pool_name z @ ''/swap'']]
         else [])
      @ [[''zpool'', ''set'', ''bootfs='' @ pool_name z @ ''/ROOT/arch'', pool_name z]])"
    and "i < length p"
    and "p ! i = [''zpool'', ''set'', ''bootfs='' @ pool_name z @ ''/ROOT/arch'', pool_name z]"
  shows "1 < i \<and> p ! 1 = [''zfs'', ''create'', ''-p'', ''-o'', ''canmount=noauto'', ''-o'', ''mountpoint=/'',
        ''-o'', ''com.sun:auto-snapshot=true'', pool_name z @ ''/ROOT/arch'']"
proof -
  let ?E = "[[''zfs'', ''create'', ''-p'', ''-o'', ''canmount=off'', ''-o'', ''mountpoint=none'',
        pool_name z @ ''/ROOT''],
       [''zfs'', ''create'', ''-p'', ''-o'', ''canmount=noauto'', ''-o'', ''mountpoint=/'',
        ''-o'', ''com.sun:auto-snapshot=true'', pool_name z @ ''/ROOT/arch''],
       [''zfs'', ''create'', ''-p'', ''-o'', ''mountpoint=/home'',
        ''-o'', ''com.sun:auto-snapshot=true'', pool_name z @ ''/home''],
       [''zfs'', ''create'', ''-p'', ''-o'', ''mountpoint=/var'',
        ''-o'', ''com.sun:auto-snapshot=false'', pool_name z @ ''/var''],
       [''zfs'', ''create'', ''-p'', ''-o'', ''mountpoint=/var/log'', pool_name z @ ''/var/log''],
       [''zfs'', ''create'', ''-p'', ''-o'', ''mountpoint=/var/cache'', pool_name z @ ''/var/cache'']]
      @ (if swap_size z > 0
         then [create_swap_zvol_cmd z, [''mkswap'', ''-f'', ''/dev/zvol/'' @ pool_name z @ ''/swap'']]
         else [])
      @ [[''zpool'', ''set'', ''bootfs='' @ pool_name z @ ''/ROOT/arch'', pool_name z]]"
  have e: "?E ! i = [''zpool'', ''set'', ''bootfs='' @ pool_name z @ ''/ROOT/arch'', pool_name z]"
    using prefix_nth [OF assms(1,2)] assms(3) by simp
  have i0: "i \<noteq> 0"
  proof
    assume "i = 0"
    with e show False by simp
  qed
  have "i \<noteq> 1"
  proof
    assume "i = 1"
    with e show False by simp
  qed
  with i0 have i1: "1 < i" by simp
  with assms(2) have "1 < length p" by simp
  from prefix_nth [OF assms(1) this] i1 show ?thesis by simp
qed

text \<open>
  Claim C7. Whatever the tools return, the commands \<open>create_datasets\<close> adds are a prefix of
  this list, and the whole list when it returns: the container \<^verbatim>\<open>pool/ROOT\<close>, the root
  \<^verbatim>\<open>pool/ROOT/arch\<close>, home, var, var/log, var/cache, then the swap volume and its
  \<^verbatim>\<open>mkswap\<close> exactly when \<open>swap_size > 0\<close>, then \<^verbatim>\<open>zpool set bootfs\<close>. Wherever the bootfs
  command is among the commands added, the root dataset's creation command was added
  before it.
\<close>

theorem create_datasets_order:
  "prefix (drop (length (calls w)) (map fst (calls (snd (snd (create_datasets env z w))))))
     ([[''zfs'', ''create'', ''-p'', ''-o'', ''canmount=off'', ''-o'', ''mountpoint=none'',
        pool_name z @ ''/ROOT''],
       [''zfs'', ''create'', ''-p'', ''-o'', ''canmount=noauto'', ''-o'', ''mountpoint=/'',
        ''-o'', ''com.sun:auto-snapshot=true'', pool_name z @ ''/ROOT/arch''],
       [''zfs'', ''create'', ''-p'', ''-o'', ''mountpoint=/home'',
        ''-o'', ''com.sun:auto-snapshot=true'', pool_name z @ ''/home''],
       [''zfs'', ''create'', ''-p'', ''-o'', ''mountpoint=/var'',
        ''-o'', ''com.sun:auto-snapshot=false'', pool_name z @ ''/var''],
       [''zfs'', ''create'', ''-p'', ''-o'', ''mountpoint=/var/log'', pool_name z @ ''/var/log''],
       [''zfs'', ''create'', ''-p'', ''-o'', ''mountpoint=/var/cache'', pool_name z @ ''/var/cache'']]
      @ (if swap_size z > 0
         then [create_swap_zvol_cmd z, [''mkswap'', ''-f'', ''/dev/zvol/'' @ pool_name z @ ''/swap'']]
         else [])
      @ [[''zpool'', ''set'', ''bootfs='' @ pool_name z @ ''/ROOT/arch'', pool_name z]])
   \<and> take (length (calls w)) (map fst (calls (snd (snd (create_datasets env z w))))) = map fst (calls w)
   \<and> (\<not> isl (fst (create_datasets env z w)) \<longrightarrow>
        drop (length (calls w)) (map fst (calls (snd (snd (create_datasets env z w))))) =
     ([[''zfs'', ''create'', ''-p'', ''-o'', ''canmount=off'', ''-o'', ''mountpoint=none'',
        pool_name z @ ''/ROOT''],
       [''zfs'', ''create'', ''-p'', ''-o'', ''canmount=noauto'', ''-o'', ''mountpoint=/'',
        ''-o'', ''com.sun:auto-snapshot=true'', pool_name z @ ''/ROOT/arch''],
       [''zfs'', ''create'', ''-p'', ''-o'', ''mountpoint=/home'',
        ''-o'', ''com.sun:auto-snapshot=true'', pool_name z @ ''/home''],
       [''zfs'', ''create'', ''-p'', ''-o'', ''mountpoint=/var'',
        ''-o'', ''com.sun:auto-snapshot=false'', pool_name z @ ''/var''],
       [''zfs'', ''create'', ''-p'', ''-o'', ''mountpoint=/var/log'', pool_name z @ ''/var/log''],
       [''zfs'', ''create'', ''-p'', ''-o'', ''mountpoint=/var/cache'', pool_name z @ ''/var/cache'']]
      @ (if swap_size z > 0
         then [create_swap_zvol_cmd z, [''mkswap'', ''-f'', ''/dev/zvol/'' @ pool_name z @ ''/swap'']]
         else [])
      @ [[''zpool'', ''set'', ''bootfs='' @ pool_name z @ ''/ROOT/arch'', pool_name z]]))
   \<and> (\<forall>i. i < length (drop (length (calls w)) (map fst (calls (snd (snd (create_datasets env z w))))))
            \<and> drop (length (calls w)) (map fst (calls (snd (snd (create_datasets env z w))))) ! i
                = [''zpool'', ''set'', ''bootfs='' @ pool_name z @ ''/ROOT/arch'', pool_name z]
        \<longrightarrow> 1 < i
            \<and> drop (length (calls w)) (map fst (calls (snd (snd (create_datasets env z w))))) ! 1
                = [''zfs'', ''create'', ''-p'', ''-o'', ''canmount=noauto'', ''-o'', ''mountpoint=/'',
                   ''-o'', ''com.sun:auto-snapshot=true'', pool_name z @ ''/ROOT/arch''])"
proof -
  let ?w0 = "print (nl @ ''Creating ZFS datasets...'') w"
  let ?res = "create_datasets_steps env z ?w0"
  have fst_eq: "isl (fst (create_datasets env z w)) = isl (fst ?res)"
    by (auto simp: create_datasets_def Let_def split: prod.splits sum.splits)
  have calls_eq: "calls (snd (snd (create_datasets env z w))) = calls (snd ?res)"
    by (auto simp: create_datasets_def Let_def split: prod.splits sum.splits)
  have len: "length (calls ?w0) = length (calls w)" "calls ?w0 = calls w" by simp_all
  note d = emitsD [OF create_datasets_steps_emits [of env z ?w0], unfolded len]
  from d have p: "prefix (drop (length (calls w)) (map fst (calls (snd ?res))))
     ([[''zfs'', ''create'', ''-p'', ''-o'', ''canmount=off'', ''-o'', ''mountpoint=none'',
        pool_name z @ ''/ROOT''],
       [''zfs'', ''create'', ''-p'', ''-o'', ''canmount=noauto'', ''-o'', ''mountpoint=/'',
        ''-o'', ''com.sun:auto-snapshot=true'', pool_name z @ ''/ROOT/arch''],
       [''zfs'', ''create'', ''-p'', ''-o'', ''mountpoint=/home'',
        ''-o'', ''com.sun:auto-snapshot=true'', pool_name z @ ''/home''],
       [''zfs'', ''create'', ''-p'', ''-o'', ''mountpoint=/var'',
        ''-o'', ''com.sun:auto-snapshot=false'', pool_name z @ ''/var''],
       [''zfs'', ''create'', ''-p'', ''-o'', ''mountpoint=/var/log'', pool_name z @ ''/var/log''],
       [''zfs'', ''create'', ''-p'', ''-o'', ''mountpoint=/var/cache'', pool_name z @ ''/var/cache'']]
      @ (if swap_size z > 0
         then [create_swap_zvol_cmd z, [''mkswap'', ''-f'', ''/dev/zvol/'' @ pool_name z @ ''/swap'']]
         else [])
      @ [[''zpool'', ''set'', ''bootfs='' @ pool_name z @ ''/ROOT/arch'', pool_name z]])"
    by blast
  have b: "\<forall>i. i < length (drop (length (calls w)) (map fst (calls (snd ?res))))
            \<and> drop (length (calls w)) (map fst (calls (snd ?res))) ! i
                = [''zpool'', ''set'', ''bootfs='' @ pool_name z @ ''/ROOT/arch'', pool_name z]
        \<longrightarrow> 1 < i
            \<and> drop (length (calls w)) (map fst (calls (snd ?res))) ! 1
                = [''zfs'', ''create'', ''-p'', ''-o'', ''canmount=noauto'', ''-o'', ''mountpoint=/'',
                   ''-o'', ''com.sun:auto-snapshot=true'', pool_name z @ ''/ROOT/arch'']"
    using bootfs_after_root [OF p] by blast
  from d b show ?thesis
    unfolding fst_eq calls_eq by blast
qed

text \<open>The instance: the default pool with a swap volume of 8 GiB, every command
  succeeding.\<close>

theorem create_datasets_order_witness:
  "\<not> isl (fst (create_datasets all_succeed (ZFSManager_init\<lparr>swap_size := 8\<rparr>) fresh))
   \<and> map fst (calls (snd (snd (create_datasets all_succeed (ZFSManager_init\<lparr>swap_size := 8\<rparr>) fresh))))
     = [[''zfs'', ''create'', ''-p'', ''-o'', ''canmount=off'', ''-o'', ''mountpoint=none'', ''rpool/ROOT''],
        [''zfs'', ''create'', ''-p'', ''-o'', ''canmount=noauto'', ''-o'', ''mountpoint=/'',
         ''-o'', ''com.sun:auto-snapshot=true'', ''rpool/ROOT/arch''],
        [''zfs'', ''create'', ''-p'', ''-o'', ''mountpoint=/home'',
         ''-o'', ''com.sun:auto-snapshot=true'', ''rpool/home''],
        [''zfs'', ''create'', ''-p'', ''-o'', ''mountpoint=/var'',
         ''-o'', ''com.sun:auto-snapshot=false'', ''rpool/var''],
        [''zfs'', ''create'', ''-p'', ''-o'', ''mountpoint=/var/log'', ''rpool/var/log''],
        [''zfs'', ''create'', ''-p'', ''-o'', ''mountpoint=/var/cache'', ''rpool/var/cache''],
        [''zfs'', ''create'', ''-V'', ''8589934592'', ''-b'', ''4K'', ''-o'', ''compression=zle'',
         ''-o'', ''logbias=throughput'', ''-o'', ''sync=always'', ''-o'', ''primarycache=metadata'',
         ''-o'', ''com.sun:auto-snapshot=false'', ''rpool/swap''],
        [''mkswap'', ''-f'', ''/dev/zvol/rpool/swap''],
        [''zpool'', ''set'', ''bootfs=rpool/ROOT/arch'', ''rpool'']]"
proof -
  have s: "str_int 8589934592 = ''8589934592''"
    by (simp add: str_int_def str_nat.simps digit_char_def)
  have r: "\<not> isl (fst (create_datasets all_succeed (ZFSManager_init\<lparr>swap_size := 8\<rparr>) fresh))"
    by (simp add: create_datasets_def create_datasets_steps_def then_do_def create_dataset_def
          create_swap_zvol_def subprocess_run_def Let_def)
  note t = create_datasets_order [of fresh all_succeed "ZFSManager_init\<lparr>swap_size := 8\<rparr>",
              THEN conjunct2, THEN conjunct2, THEN conjunct1, rule_format, OF r]
  from t have "map fst (calls (snd (snd (create_datasets all_succeed (ZFSManager_init\<lparr>swap_size := 8\<rparr>) fresh))))
     = [[''zfs'', ''create'', ''-p'', ''-o'', ''canmount=off'', ''-o'', ''mountpoint=none'', ''rpool/ROOT''],
        [''zfs'', ''create'', ''-p'', ''-o'', ''canmount=noauto'', ''-o'', ''mountpoint=/'',
         ''-o'', ''com.sun:auto-snapshot=true'', ''rpool/ROOT/arch''],
        [''zfs'', ''create'', ''-p'', ''-o'', ''mountpoint=/home'',
         ''-o'', ''com.sun:auto-snapshot=true'', ''rpool/home''],
        [''zfs'', ''create'', ''-p'', ''-o'', ''mountpoint=/var'',
         ''-o'', ''com.sun:auto-snapshot=false'', ''rpool/var''],
        [''zfs'', ''create'', ''-p'', ''-o'', ''mountpoint=/var/log'', ''rpool/var/log''],
        [''zfs'', ''create'', ''-p'', ''-o'', ''mountpoint=/var/cache'', ''rpool/var/cache''],
        [''zfs'', ''create'', ''-V'', ''8589934592'', ''-b'', ''4K'', ''-o'', ''compression=zle'',
         ''-o'', ''logbias=throughput'', ''-o'', ''sync=always'', ''-o'', ''primarycache=metadata'',
         ''-o'', ''com.sun:auto-snapshot=false'', ''rpool/swap''],
        [''mkswap'', ''-f'', ''/dev/zvol/rpool/swap''],
        [''zpool'', ''set'', ''bootfs=rpool/ROOT/arch'', ''rpool'']]"
    by (simp add: ZFSManager_init_def create_swap_zvol_cmd_def Let_def s)
  with r show ?thesis by blast
qed

subsection \<open>Teardown\<close>

lemma out_subprocess_run [simp]: "out (snd (subprocess_run env check cmd w)) = out w"
  by (simp add: subprocess_run_def Let_def)

lemma out_print: "out (print s w) = out w @ [(s, None)]"
  by (simp add: print_def)

lemma out_print_exn: "out (print_exn s e w) = out w @ [(s, Some e)]"
  by (simp add: print_exn_def)

lemma unmount_boot_calls:
  "calls (snd (unmount_boot env bm w)) =
     calls w @ [([''umount'', path_join (bm_root_mount bm) ''boot/efi''], None)]
     @ (if separate_boot bm
           \<and> returncode (env (calls w) ([''umount'', path_join (bm_root_mount bm) ''boot/efi''], None)) = 0
        then [([''umount'', path_join (bm_root_mount bm) ''boot''], None)] else [])"
  by (auto simp: unmount_boot_def subprocess_run_def Let_def split: prod.splits sum.splits)

lemma unmount_boot_warns:
  "returncode (env (calls w) ([''umount'', path_join (bm_root_mount bm) ''boot/efi''], None)) \<noteq> 0 \<Longrightarrow>
   out (snd (unmount_boot env bm w)) =
     out w @ [(''Warning: Failed to unmount boot partitions: '',
               Some (CalledProcessError [''umount'', path_join (bm_root_mount bm) ''boot/efi'']
                  (returncode (env (calls w) ([''umount'', path_join (bm_root_mount bm) ''boot/efi''], None)))))]"
  by (auto simp: unmount_boot_def subprocess_run_def Let_def print_exn_def split: prod.splits sum.splits)

lemma unmount_datasets_all:
  "unmount_datasets env (map Some ds) w = (Inr (), snd (unmount_datasets env (map Some ds) w))
   \<and> calls (snd (unmount_datasets env (map Some ds) w)) =
       calls w @ map (\<lambda>d. ([''zfs'', ''unmount'', d], None)) ds
   \<and> out (snd (unmount_datasets env (map Some ds) w)) = out w"
  by (induction ds arbitrary: w) auto

lemma export_pool_calls:
  "calls (snd (export_pool env z w)) = calls w @ [([''zpool'', ''export'', pool_name z], None)]"
  by (auto simp: export_pool_def subprocess_run_def Let_def split: prod.splits sum.splits)

lemma export_pool_out: "x \<in> set (out w) \<Longrightarrow> x \<in> set (out (snd (export_pool env z w)))"
proof -
  assume x: "x \<in> set (out w)"
  have o: "out (snd (subprocess_run env True [''zpool'', ''export'', pool_name z] w)) = out w"
    by simp
  show ?thesis
  proof (cases "subprocess_run env True [''zpool'', ''export'', pool_name z] w")
    case (Pair a w1)
    with o have "out w1 = out w" by simp
    with x Pair show ?thesis
      by (cases a) (simp_all add: export_pool_def out_print out_print_exn)
  qed
qed

lemma unmount_filesystems_calls:
  assumes "datasets (zfs_manager inst) ''root'' = Some (Some root_dataset)"
  shows "calls (unmount_filesystems env export_now inst w) =
     calls (snd (unmount_boot env (boot_manager inst) w))
     @ map (\<lambda>d. ([''zfs'', ''unmount'', d], None))
         [pool_name (zfs_manager inst) @ ''/var/cache'',
          pool_name (zfs_manager inst) @ ''/var/log'',
          pool_name (zfs_manager inst) @ ''/var/cache'',
          pool_name (zfs_manager inst) @ ''/var'',
          pool_name (zfs_manager inst) @ ''/home'',
          root_dataset]
     @ (if export_now then [([''zpool'', ''export'', pool_name (zfs_manager inst)], None)] else [])"
proof -
  let ?z = "zfs_manager inst"
  let ?ds = "[pool_name ?z @ ''/var/cache'', pool_name ?z @ ''/var/log'', pool_name ?z @ ''/var/cache'',
              pool_name ?z @ ''/var'', pool_name ?z @ ''/home'', root_dataset]"
  let ?w1 = "snd (unmount_boot env (boot_manager inst) (print ''Unmounting filesystems...'' w))"
  have l: "[Some (pool_name ?z @ ''/var/cache''), Some (pool_name ?z @ ''/var/log''),
            Some (pool_name ?z @ ''/var/cache''), Some (pool_name ?z @ ''/var''),
            Some (pool_name ?z @ ''/home''), Some root_dataset] = map Some ?ds"
    by simp
  note u = unmount_datasets_all [of env ?ds ?w1]
  have b: "calls ?w1 = calls (snd (unmount_boot env (boot_manager inst) w))"
    by (simp add: unmount_boot_calls)
  show ?thesis
    unfolding unmount_filesystems_def Let_def assms option.case l
    apply (subst u [THEN conjunct1])
    apply (simp add: then_do_def export_pool_calls u [THEN conjunct2, THEN conjunct1] b
             del: unmount_datasets.simps map_map list.map)
    done
qed

lemma unmount_filesystems_out:
  assumes "datasets (zfs_manager inst) ''root'' = Some (Some root_dataset)"
    and "x \<in> set (out (snd (unmount_boot env (boot_manager inst) (print ''Unmounting filesystems...'' w))))"
  shows "x \<in> set (out (unmount_filesystems env export_now inst w))"
proof -
  let ?z = "zfs_manager inst"
  let ?ds = "[pool_name ?z @ ''/var/cache'', pool_name ?z @ ''/var/log'', pool_name ?z @ ''/var/cache'',
              pool_name ?z @ ''/var'', pool_name ?z @ ''/home'', root_dataset]"
  let ?w1 = "snd (unmount_boot env (boot_manager inst) (print ''Unmounting filesystems...'' w))"
  have l: "[Some (pool_name ?z @ ''/var/cache''), Some (pool_name ?z @ ''/var/log''),
            Some (pool_name ?z @ ''/var/cache''), Some (pool_name ?z @ ''/var''),
            Some (pool_name ?z @ ''/home''), Some root_dataset] = map Some ?ds"
    by simp
  note u = unmount_datasets_all [of env ?ds ?w1]
  have o: "x \<in> set (out (snd (unmount_datasets env (map Some ?ds) ?w1)))"
    using assms(2) by (simp only: u [THEN conjunct2, THEN conjunct2])
  show ?thesis
    unfolding unmount_filesystems_def Let_def assms(1) option.case l
    apply (subst u [THEN conjunct1])
    using o export_pool_out [OF o, of env ?z]
    apply (simp add: then_do_def out_print del: unmount_datasets.simps map_map list.map)
    done
qed

lemma unmount_boot_out_ok:
  "returncode (env (calls w) ([''umount'', path_join (bm_root_mount bm) ''boot/efi''], None)) = 0 \<Longrightarrow>
   \<not> separate_boot bm \<Longrightarrow>
   out (snd (unmount_boot env bm w)) = out w @ [(''Boot partitions unmounted.'', None)]"
  by (auto simp: unmount_boot_def subprocess_run_def Let_def print_def split: prod.splits sum.splits)

lemma unmount_filesystems_out_no_export:
  assumes "datasets (zfs_manager inst) ''root'' = Some (Some root_dataset)"
  shows "out (unmount_filesystems env False inst w) =
           out (snd (unmount_boot env (boot_manager inst) (print ''Unmounting filesystems...'' w)))
           @ [(''Filesystems unmounted.'', None)]"
proof -
  let ?z = "zfs_manager inst"
  let ?ds = "[pool_name ?z @ ''/var/cache'', pool_name ?z @ ''/var/log'', pool_name ?z @ ''/var/cache'',
              pool_name ?z @ ''/var'', pool_name ?z @ ''/home'', root_dataset]"
  let ?w1 = "snd (unmount_boot env (boot_manager inst) (print ''Unmounting filesystems...'' w))"
  have l: "[Some (pool_name ?z @ ''/var/cache''), Some (pool_name ?z @ ''/var/log''),
            Some (pool_name ?z @ ''/var/cache''), Some (pool_name ?z @ ''/var''),
            Some (pool_name ?z @ ''/home''), Some root_dataset] = map Some ?ds"
    by simp
  note u = unmount_datasets_all [of env ?ds ?w1]
  show ?thesis
    unfolding unmount_filesystems_def Let_def assms option.case l
    apply (subst u [THEN conjunct1])
    apply (simp add: then_do_def out_print u [THEN conjunct2, THEN conjunct2]
             del: unmount_datasets.simps map_map list.map)
    done
qed

text \<open>No line is printed for a dataset unmount, whatever it returns.\<close>

lemma unmount_filesystems_quiet:
  assumes "datasets (zfs_manager inst) ''root'' = Some (Some root_dataset)"
    and "returncode (env (calls w)
           ([''umount'', path_join (bm_root_mount (boot_manager inst)) ''boot/efi''], None)) = 0"
    and "\<not> separate_boot (boot_manager inst)"
  shows "out (unmount_filesystems env False inst w) =
           out w @ [(''Unmounting filesystems...'', None), (''Boot partitions unmounted.'', None),
                    (''Filesystems unmounted.'', None)]"
proof -
  let ?w0 = "print ''Unmounting filesystems...'' w"
  from assms(2) have "returncode (env (calls ?w0)
           ([''umount'', path_join (bm_root_mount (boot_manager inst)) ''boot/efi''], None)) = 0"
    by simp
  from unmount_boot_out_ok [where env = env and w = ?w0 and bm = "boot_manager inst", OF this assms(3)]
  show ?thesis
    by (simp add: unmount_filesystems_out_no_export [OF assms(1)] out_print)
qed

text \<open>
  Claim C8, as stated, fails for the boot partitions: both \<^verbatim>\<open>umount\<close> calls of
  \<open>unmount_boot\<close> sit in one \<^verbatim>\<open>try\<close> under \<^verbatim>\<open>check=True\<close>. With a separate boot
  partition and an EFI directory that cannot be unmounted, the \<^verbatim>\<open>umount\<close> of
  \<^verbatim>\<open>/mnt/boot\<close> is never attempted.
\<close>

theorem unmount_boot_skipped_counterexample:
  "separate_boot (boot_manager (sample_installer
      \<lparr>boot_manager := BootManager_init\<lparr>separate_boot := True, boot_partition := Some ''/dev/sda2''\<rparr>\<rparr>))
   \<and> map fst (calls (unmount_filesystems efi_busy False
        (sample_installer
          \<lparr>boot_manager := BootManager_init\<lparr>separate_boot := True, boot_partition := Some ''/dev/sda2''\<rparr>\<rparr>)
        fresh))
     = [[''umount'', ''/mnt/boot/efi''],
        [''zfs'', ''unmount'', ''rpool/var/cache''],
        [''zfs'', ''unmount'', ''rpool/var/log''],
        [''zfs'', ''unmount'', ''rpool/var/cache''],
        [''zfs'', ''unmount'', ''rpool/var''],
        [''zfs'', ''unmount'', ''rpool/home''],
        [''zfs'', ''unmount'', ''rpool/ROOT/arch'']]
   \<and> [''umount'', ''/mnt/boot''] \<notin> set (map fst (calls (unmount_filesystems efi_busy False
        (sample_installer
          \<lparr>boot_manager := BootManager_init\<lparr>separate_boot := True, boot_partition := Some ''/dev/sda2''\<rparr>\<rparr>)
        fresh)))"
proof -
  have r: "datasets (zfs_manager (sample_installer
      \<lparr>boot_manager := BootManager_init\<lparr>separate_boot := True, boot_partition := Some ''/dev/sda2''\<rparr>\<rparr>))
      ''root'' = Some (Some ''rpool/ROOT/arch'')"
    by (simp add: Installer_init_def ZFSManager_init_def)
  show ?thesis
    unfolding unmount_filesystems_calls [OF r] unmount_boot_calls
    by (simp add: Installer_init_def ZFSManager_init_def BootManager_init_def path_join_def
          startswith_def)
qed

text \<open>
  Claim C8, amended. When the dataset map has its root entry, teardown issues: the
  \<^verbatim>\<open>umount\<close> of the EFI directory; the \<^verbatim>\<open>umount\<close> of the boot directory only if there is
  a separate boot partition and the EFI \<^verbatim>\<open>umount\<close> returned 0; then every
  \<^verbatim>\<open>zfs unmount\<close> of its list, whatever any earlier command returned; then the export if
  it was asked for. A failed EFI \<^verbatim>\<open>umount\<close> is printed as a warning. A
  \<^verbatim>\<open>zfs unmount\<close> runs under \<^verbatim>\<open>check=False\<close> and the installer prints nothing for it:
  without an export the output is what the boot unmount printed followed by the closing
  line, whatever the dataset unmounts return, and with the boot unmount succeeding it is
  the same three lines.
\<close>

theorem unmount_best_effort:
  assumes "datasets (zfs_manager inst) ''root'' = Some (Some root_dataset)"
  shows "map fst (calls (unmount_filesystems env export_now inst w)) =
           map fst (calls w)
           @ [[''umount'', path_join (bm_root_mount (boot_manager inst)) ''boot/efi'']]
           @ (if separate_boot (boot_manager inst)
                 \<and> returncode (env (calls w)
                      ([''umount'', path_join (bm_root_mount (boot_manager inst)) ''boot/efi''], None)) = 0
              then [[''umount'', path_join (bm_root_mount (boot_manager inst)) ''boot'']] else [])
           @ [[''zfs'', ''unmount'', pool_name (zfs_manager inst) @ ''/var/cache''],
              [''zfs'', ''unmount'', pool_name (zfs_manager inst) @ ''/var/log''],
              [''zfs'', ''unmount'', pool_name (zfs_manager inst) @ ''/var/cache''],
              [''zfs'', ''unmount'', pool_name (zfs_manager inst) @ ''/var''],
              [''zfs'', ''unmount'', pool_name (zfs_manager inst) @ ''/home''],
              [''zfs'', ''unmount'', root_dataset]]
           @ (if export_now then [[''zpool'', ''export'', pool_name (zfs_manager inst)]] else [])
       \<and> (returncode (env (calls w)
              ([''umount'', path_join (bm_root_mount (boot_manager inst)) ''boot/efi''], None)) \<noteq> 0 \<longrightarrow>
            (''Warning: Failed to unmount boot partitions: '',
             Some (CalledProcessError [''umount'', path_join (bm_root_mount (boot_manager inst)) ''boot/efi'']
                (returncode (env (calls w)
                   ([''umount'', path_join (bm_root_mount (boot_manager inst)) ''boot/efi''], None)))))
            \<in> set (out (unmount_filesystems env export_now inst w)))
       \<and> (returncode (env (calls w)
              ([''umount'', path_join (bm_root_mount (boot_manager inst)) ''boot/efi''], None)) = 0
            \<and> \<not> separate_boot (boot_manager inst) \<and> \<not> export_now \<longrightarrow>
            out (unmount_filesystems env export_now inst w) =
              out w @ [(''Unmounting filesystems...'', None), (''Boot partitions unmounted.'', None),
                       (''Filesystems unmounted.'', None)])
       \<and> (\<not> export_now \<longrightarrow>
            out (unmount_filesystems env export_now inst w) =
              out (snd (unmount_boot env (boot_manager inst) (print ''Unmounting filesystems...'' w)))
              @ [(''Filesystems unmounted.'', None)])"
proof (intro conjI impI)
  show "map fst (calls (unmount_filesystems env export_now inst w)) =
           map fst (calls w)
           @ [[''umount'', path_join (bm_root_mount (boot_manager inst)) ''boot/efi'']]
           @ (if separate_boot (boot_manager inst)
                 \<and> returncode (env (calls w)
                      ([''umount'', path_join (bm_root_mount (boot_manager inst)) ''boot/efi''], None)) = 0
              then [[''umount'', path_join (bm_root_mount (boot_manager inst)) ''boot'']] else [])
           @ [[''zfs'', ''unmount'', pool_name (zfs_manager inst) @ ''/var/cache''],
              [''zfs'', ''unmount'', pool_name (zfs_manager inst) @ ''/var/log''],
              [''zfs'', ''unmount'', pool_name (zfs_manager inst) @ ''/var/cache''],
              [''zfs'', ''unmount'', pool_name (zfs_manager inst) @ ''/var''],
              [''zfs'', ''unmount'', pool_name (zfs_manager inst) @ ''/home''],
              [''zfs'', ''unmount'', root_dataset]]
           @ (if export_now then [[''zpool'', ''export'', pool_name (zfs_manager inst)]] else [])"
    by (simp add: unmount_filesystems_calls [OF assms] unmount_boot_calls)
next
  let ?w0 = "print ''Unmounting filesystems...'' w"
  let ?c = "[''umount'', path_join (bm_root_mount (boot_manager inst)) ''boot/efi'']"
  assume "returncode (env (calls w) (?c, None)) \<noteq> 0"
  then have "returncode (env (calls ?w0) (?c, None)) \<noteq> 0" by simp
  from unmount_boot_warns [where env = env and w = ?w0 and bm = "boot_manager inst", OF this]
  have "(''Warning: Failed to unmount boot partitions: '',
          Some (CalledProcessError ?c (returncode (env (calls w) (?c, None)))))
        \<in> set (out (snd (unmount_boot env (boot_manager inst) ?w0)))"
    by simp
  then show "(''Warning: Failed to unmount boot partitions: '',
          Some (CalledProcessError ?c (returncode (env (calls w) (?c, None)))))
        \<in> set (out (unmount_filesystems env export_now inst w))"
    by (rule unmount_filesystems_out [OF assms])
next
  assume a: "returncode (env (calls w)
              ([''umount'', path_join (bm_root_mount (boot_manager inst)) ''boot/efi''], None)) = 0
            \<and> \<not> separate_boot (boot_manager inst) \<and> \<not> export_now"
  then have e: "export_now = False" by simp
  from a show "out (unmount_filesystems env export_now inst w) =
              out w @ [(''Unmounting filesystems...'', None), (''Boot partitions unmounted.'', None),
                       (''Filesystems unmounted.'', None)]"
    unfolding e by (simp add: unmount_filesystems_quiet [OF assms])
next
  assume "\<not> export_now"
  then have e: "export_now = False" by simp
  show "out (unmount_filesystems env export_now inst w) =
              out (snd (unmount_boot env (boot_manager inst) (print ''Unmounting filesystems...'' w)))
              @ [(''Filesystems unmounted.'', None)]"
    unfolding e by (rule unmount_filesystems_out_no_export [OF assms])
qed

text \<open>The instances: the sample installation with every command succeeding and no export,
  and the same with a busy EFI directory.\<close>

theorem unmount_best_effort_witness:
  "datasets (zfs_manager sample_installer) ''root'' = Some (Some ''rpool/ROOT/arch'')
   \<and> map fst (calls (unmount_filesystems all_succeed False sample_installer fresh))
     = [[''umount'', ''/mnt/boot/efi''],
        [''zfs'', ''unmount'', ''rpool/var/cache''],
        [''zfs'', ''unmount'', ''rpool/var/log''],
        [''zfs'', ''unmount'', ''rpool/var/cache''],
        [''zfs'', ''unmount'', ''rpool/var''],
        [''zfs'', ''unmount'', ''rpool/home''],
        [''zfs'', ''unmount'', ''rpool/ROOT/arch'']]
   \<and> out (unmount_filesystems all_succeed False sample_installer fresh)
     = [(''Unmounting filesystems...'', None), (''Boot partitions unmounted.'', None),
        (''Filesystems unmounted.'', None)]
   \<and> (''Warning: Failed to unmount boot partitions: '',
       Some (CalledProcessError [''umount'', ''/mnt/boot/efi''] 32))
      \<in> set (out (unmount_filesystems efi_busy False sample_installer fresh))"
proof -
  have r: "datasets (zfs_manager sample_installer) ''root'' = Some (Some ''rpool/ROOT/arch'')"
    by (simp add: Installer_init_def ZFSManager_init_def)
  have p: "path_join (bm_root_mount (boot_manager sample_installer)) ''boot/efi'' = ''/mnt/boot/efi''"
    by (simp add: Installer_init_def BootManager_init_def path_join_def startswith_def)
  have s: "\<not> separate_boot (boot_manager sample_installer)"
    by (simp add: Installer_init_def BootManager_init_def)
  note t1 = unmount_best_effort [OF r, of all_succeed False fresh]
  note t2 = unmount_best_effort [OF r, of efi_busy False fresh]
  have c: "map fst (calls (unmount_filesystems all_succeed False sample_installer fresh))
     = [[''umount'', ''/mnt/boot/efi''],
        [''zfs'', ''unmount'', ''rpool/var/cache''],
        [''zfs'', ''unmount'', ''rpool/var/log''],
        [''zfs'', ''unmount'', ''rpool/var/cache''],
        [''zfs'', ''unmount'', ''rpool/var''],
        [''zfs'', ''unmount'', ''rpool/home''],
        [''zfs'', ''unmount'', ''rpool/ROOT/arch'']]"
    unfolding t1 [THEN conjunct1]
    by (simp add: Installer_init_def ZFSManager_init_def BootManager_init_def path_join_def
          startswith_def)
  have o: "out (unmount_filesystems all_succeed False sample_installer fresh)
     = [(''Unmounting filesystems...'', None), (''Boot partitions unmounted.'', None),
        (''Filesystems unmounted.'', None)]"
    using t1 [THEN conjunct2, THEN conjunct2, THEN conjunct1] s by simp
  have w: "(''Warning: Failed to unmount boot partitions: '',
       Some (CalledProcessError [''umount'', ''/mnt/boot/efi''] 32))
      \<in> set (out (unmount_filesystems efi_busy False sample_installer fresh))"
    using t2 [THEN conjunct2, THEN conjunct1] by (simp add: p)
  from r c o w show ?thesis by blast
qed

text \<open>
  Claim C4 against the code: the list of \<open>_unmount_filesystems\<close> names \<^verbatim>\<open>var/cache\<close> twice,
  before and after \<^verbatim>\<open>var/log\<close>, under the comment "Unmount in reverse order of mounting".
  On the sample installation, with every command succeeding, the commands of teardown are
  these seven, and the \<^verbatim>\<open>zfs unmount\<close> of \<^verbatim>\<open>rpool/var/cache\<close> is among them twice. The
  commands of \<open>mount_filesystems\<close> on the same installation follow for comparison.
\<close>

theorem unmount_var_cache_twice:
  "map fst (calls (unmount_filesystems all_succeed False sample_installer fresh))
     = [[''umount'', ''/mnt/boot/efi''],
        [''zfs'', ''unmount'', ''rpool/var/cache''],
        [''zfs'', ''unmount'', ''rpool/var/log''],
        [''zfs'', ''unmount'', ''rpool/var/cache''],
        [''zfs'', ''unmount'', ''rpool/var''],
        [''zfs'', ''unmount'', ''rpool/home''],
        [''zfs'', ''unmount'', ''rpool/ROOT/arch'']]
   \<and> count_list (map fst (calls (unmount_filesystems all_succeed False sample_installer fresh)))
        [''zfs'', ''unmount'', ''rpool/var/cache''] = 2
   \<and> map fst (calls (snd (snd (mount_filesystems all_succeed (\<lambda>path. True) sample_installer fresh))))
     = [[''zpool'', ''import'', ''-d'', ''/dev/disk/by-id'', ''-f'', ''-N'', ''rpool''],
        [''zfs'', ''set'', ''mountpoint=/mnt'', ''rpool/ROOT/arch''],
        [''zfs'', ''mount'', ''rpool/ROOT/arch''],
        [''zfs'', ''set'', ''mountpoint=/mnt/home'', ''rpool/home''],
        [''zfs'', ''mount'', ''rpool/home''],
        [''zfs'', ''set'', ''mountpoint=/mnt/var'', ''rpool/var''],
        [''zfs'', ''mount'', ''rpool/var''],
        [''zfs'', ''set'', ''mountpoint=/mnt/var/log'', ''rpool/var/log''],
        [''zfs'', ''mount'', ''rpool/var/log''],
        [''zfs'', ''set'', ''mountpoint=/mnt/var/cache'', ''rpool/var/cache''],
        [''zfs'', ''mount'', ''rpool/var/cache''],
        [''mount'', ''/dev/sda1'', ''/mnt/boot/efi'']]"
proof -
  have r: "datasets (zfs_manager sample_installer) ''root'' = Some (Some ''rpool/ROOT/arch'')"
    by (simp add: Installer_init_def ZFSManager_init_def)
  have m: "map fst (calls (snd (snd (mount_filesystems all_succeed (\<lambda>path. True) sample_installer fresh))))
     = [[''zpool'', ''import'', ''-d'', ''/dev/disk/by-id'', ''-f'', ''-N'', ''rpool''],
        [''zfs'', ''set'', ''mountpoint=/mnt'', ''rpool/ROOT/arch''],
        [''zfs'', ''mount'', ''rpool/ROOT/arch''],
        [''zfs'', ''set'', ''mountpoint=/mnt/home'', ''rpool/home''],
        [''zfs'', ''mount'', ''rpool/home''],
        [''zfs'', ''set'', ''mountpoint=/mnt/var'', ''rpool/var''],
        [''zfs'', ''mount'', ''rpool/var''],
        [''zfs'', ''set'', ''mountpoint=/mnt/var/log'', ''rpool/var/log''],
        [''zfs'', ''mount'', ''rpool/var/log''],
        [''zfs'', ''set'', ''mountpoint=/mnt/var/cache'', ''rpool/var/cache''],
        [''zfs'', ''mount'', ''rpool/var/cache''],
        [''mount'', ''/dev/sda1'', ''/mnt/boot/efi'']]"
    by (simp add: mount_filesystems_def Installer_init_def ZFSManager_init_def BootManager_init_def
          DiskManager_init_def import_pool_def import_pool_cmd_def subprocess_run_def Let_def
          then_do_def makedirs_def dirname_def setup_boot_directories_def path_join_def
          startswith_def print_def)
  have u: "map fst (calls (unmount_filesystems all_succeed False sample_installer fresh))
     = [[''umount'', ''/mnt/boot/efi''],
        [''zfs'', ''unmount'', ''rpool/var/cache''],
        [''zfs'', ''unmount'', ''rpool/var/log''],
        [''zfs'', ''unmount'', ''rpool/var/cache''],
        [''zfs'', ''unmount'', ''rpool/var''],
        [''zfs'', ''unmount'', ''rpool/home''],
        [''zfs'', ''unmount'', ''rpool/ROOT/arch'']]"
    unfolding unmount_filesystems_calls [OF r] unmount_boot_calls
    by (simp add: Installer_init_def ZFSManager_init_def BootManager_init_def path_join_def
          startswith_def)
  have c: "count_list (map fst (calls (unmount_filesystems all_succeed False sample_installer fresh)))
        [''zfs'', ''unmount'', ''rpool/var/cache''] = 2"
    unfolding u by simp
  from u c m show ?thesis by blast
qed

subsection \<open>The handlers of main\<close>

text \<open>Neither handler of \<open>main\<close> issues a command: what has been issued when \<open>main\<close> ends
  is what the \<^verbatim>\<open>try\<close> block had issued.\<close>

lemma main_handlers_issue_nothing:
  "calls (snd (snd (main euid debug st env fs a mem w))) =
     (if euid \<noteq> 0 then calls w
      else calls (snd (snd (main_try st env fs a mem
                     (Installer_init DiskManager_init ZFSManager_init BootManager_init) (banner w)))))"
proof (cases "main_try st env fs a mem
                (Installer_init DiskManager_init ZFSManager_init BootManager_init) (banner w)")
  case (fields r inst w1)
  then show ?thesis
    by (cases r) (auto simp: main_def Let_def banner_def split: exn.splits)
qed

text \<open>
  Claim C1 against the code: \<open>Installer.cleanup\<close> is defined ("Only run cleanup if
  installation wasn't completed") and \<open>installation_complete\<close> is kept for it, but nothing
  calls it, and the \<^verbatim>\<open>except Exception\<close> handler of \<open>main\<close> only prints and exits. In a
  run where partitioning and pool creation succeed and the first \<^verbatim>\<open>zfs create\<close> of
  \<open>create_datasets\<close> returns 1, \<open>main\<close> exits with status 1 after two commands, neither an
  unmount nor an export; \<open>cleanup\<close> on the installer it leaves behind would have issued the
  \<^verbatim>\<open>umount\<close> of the EFI directory.
\<close>

theorem main_error_without_cleanup:
  "fst (main 0 False sample_stages zfs_create_fails (\<lambda>path. True) sample_answers Unreadable fresh) = 1
   \<and> map fst (calls (snd (snd
        (main 0 False sample_stages zfs_create_fails (\<lambda>path. True) sample_answers Unreadable fresh))))
     = [[''zpool'', ''create'', ''-f'', ''-o'', ''ashift=12'', ''-o'', ''autotrim=on'',
         ''-O'', ''compression=lz4'', ''-O'', ''normalization=formD'', ''-O'', ''acltype=posixacl'',
         ''-O'', ''xattr=sa'', ''-O'', ''relatime=on'', ''-O'', ''canmount=off'',
         ''-O'', ''mountpoint=none'', ''rpool'', ''/dev/sda2''],
        [''zfs'', ''create'', ''-p'', ''-o'', ''canmount=off'', ''-o'', ''mountpoint=none'', ''rpool/ROOT'']]
   \<and> map fst (calls (cleanup zfs_create_fails False
        (fst (snd (main 0 False sample_stages zfs_create_fails (\<lambda>path. True) sample_answers
                     Unreadable fresh)))
        fresh))
     = [[''umount'', ''/mnt/boot/efi'']]"
  by (simp add: main_def main_try_def then_do_def setup_pool_def setup_pool_options_def
     create_pool_def create_pool_cmd_def create_pool_vdevs_def create_pool_options_def
     as_partition_list_def create_datasets_def create_datasets_steps_def create_dataset_def
     subprocess_run_def Let_def Installer_init_def ZFSManager_init_def BootManager_init_def
     DiskManager_init_def banner_def str_int_12 print_def print_exn_def
     cleanup_def unmount_filesystems_def unmount_boot_def path_join_def startswith_def)

subsection \<open>The initramfs hook list\<close>

























end
